theory Spec2Isabelle
  imports Main "HOL-Library.Word"
begin

unbundle bit_operations_syntax

section \<open>JavaScript strings\<close>

text \<open>
  A JavaScript string is modelled as a \<^typ>\<open>string\<close>: a list of code units, each below
  256 (the Latin-1 range). Code units beyond that range are outside the model. Within
  the range, the white space of \<^verbatim>\<open>String.prototype.trim\<close> and of the regular
  expression class \<^verbatim>\<open>\s\<close> is TAB, LF, VT, FF, CR, SPACE and NBSP.
\<close>

definition code :: "char \<Rightarrow> nat" where
  "code c = of_char c"

definition is_ws :: "char \<Rightarrow> bool" where
  "is_ws c = (code c \<in> {9, 10, 11, 12, 13, 32, 160})"

definition trim :: "string \<Rightarrow> string" where
  "trim s = rev (dropWhile is_ws (rev (dropWhile is_ws s)))"

text \<open>\<^verbatim>\<open>toLowerCase\<close> on Latin-1: A-Z and the accented capitals (except the
  multiplication sign) move up by 32; every other code unit is kept.\<close>

definition lower_char :: "char \<Rightarrow> char" where
  "lower_char c =
     (let n = code c
      in if (65 \<le> n \<and> n \<le> 90) \<or> (192 \<le> n \<and> n \<le> 222 \<and> n \<noteq> 215)
         then char_of (n + 32) else c)"

definition toLowerCase :: "string \<Rightarrow> string" where
  "toLowerCase s = map lower_char s"

text \<open>The character classes of the regular expressions in the sources.\<close>

definition is_digit :: "char \<Rightarrow> bool" where
  "is_digit c = (48 \<le> code c \<and> code c \<le> 57)"

definition is_lower :: "char \<Rightarrow> bool" where
  "is_lower c = (97 \<le> code c \<and> code c \<le> 122)"

definition is_upper :: "char \<Rightarrow> bool" where
  "is_upper c = (65 \<le> code c \<and> code c \<le> 90)"

definition is_alnum :: "char \<Rightarrow> bool" where
  "is_alnum c = (is_lower c \<or> is_upper c \<or> is_digit c)"

text \<open>\<^verbatim>\<open>[a-zA-Z0-9._-]\<close>\<close>
definition did_char :: "char \<Rightarrow> bool" where
  "did_char c = (is_alnum c \<or> c = CHR ''.'' \<or> c = CHR ''_'' \<or> c = CHR ''-'')"

text \<open>\<^verbatim>\<open>[a-zA-Z0-9.-]\<close>\<close>
definition handle_char :: "char \<Rightarrow> bool" where
  "handle_char c = (is_alnum c \<or> c = CHR ''.'' \<or> c = CHR ''-'')"

text \<open>\<^verbatim>\<open>[a-zA-Z0-9_-]\<close>\<close>
definition token_char :: "char \<Rightarrow> bool" where
  "token_char c = (is_alnum c \<or> c = CHR ''_'' \<or> c = CHR ''-'')"

text \<open>\<^verbatim>\<open>/^did:(plc|web):[a-zA-Z0-9._-]+$/\<close>\<close>
definition did_regex :: "string \<Rightarrow> bool" where
  "did_regex s =
     ((take 8 s = ''did:plc:'' \<or> take 8 s = ''did:web:'')
      \<and> drop 8 s \<noteq> [] \<and> list_all did_char (drop 8 s))"

text \<open>\<^verbatim>\<open>/^[a-zA-Z0-9.-]+$/\<close>\<close>
definition handle_regex :: "string \<Rightarrow> bool" where
  "handle_regex s = (s \<noteq> [] \<and> list_all handle_char s)"

text \<open>\<^verbatim>\<open>/^[a-zA-Z0-9_-]+$/\<close>\<close>
definition token_regex :: "string \<Rightarrow> bool" where
  "token_regex s = (s \<noteq> [] \<and> list_all token_char s)"

text \<open>\<^verbatim>\<open>/^sess_[a-zA-Z0-9_-]+$/\<close>\<close>
definition sess_regex :: "string \<Rightarrow> bool" where
  "sess_regex s =
     (take 5 s = ''sess_'' \<and> drop 5 s \<noteq> [] \<and> list_all token_char (drop 5 s))"

text \<open>\<^verbatim>\<open>/^dev_[a-zA-Z0-9_-]+$/\<close>\<close>
definition dev_regex :: "string \<Rightarrow> bool" where
  "dev_regex s =
     (take 4 s = ''dev_'' \<and> drop 4 s \<noteq> [] \<and> list_all token_char (drop 4 s))"

text \<open>\<^verbatim>\<open>s.startsWith(p)\<close> and \<^verbatim>\<open>s.includes(p)\<close>\<close>
definition startsWith :: "string \<Rightarrow> string \<Rightarrow> bool" where
  "startsWith s p = (take (length p) s = p)"

fun includes_str :: "string \<Rightarrow> string \<Rightarrow> bool" where
  "includes_str [] p = (p = [])"
| "includes_str (c # cs) p = (startsWith (c # cs) p \<or> includes_str cs p)"

section \<open>Input sanitizers (lib/security/sanitize.ts)\<close>

text \<open>\<^verbatim>\<open>[\x00-\x08\x0B\x0C\x0E-\x1F\x7F]\<close>\<close>
definition is_control :: "char \<Rightarrow> bool" where
  "is_control c =
     (let n = code c
      in n \<le> 8 \<or> n = 11 \<or> n = 12 \<or> (14 \<le> n \<and> n \<le> 31) \<or> n = 127)"

text \<open>\<^verbatim>\<open>.replace(/\s+/g, " ")\<close>: every maximal run of white space becomes one space.\<close>

function collapse_ws :: "string \<Rightarrow> string" where
  "collapse_ws [] = []"
| "collapse_ws (c # cs) =
     (if is_ws c then CHR '' '' # collapse_ws (dropWhile is_ws cs)
      else c # collapse_ws cs)"
  by pat_completeness auto
termination
  by (relation "measure length") (auto simp: length_dropWhile_le less_Suc_eq_le)

definition sanitizeText :: "string \<Rightarrow> string" where
  "sanitizeText input =
     take 10000 (collapse_ws (filter (\<lambda>c. \<not> is_control c) (trim input)))"

text \<open>
  \<^verbatim>\<open>new URL(input)\<close> is the platform's URL parser, which is not part of the repository:
  it is a parameter of the model, \<open>None\<close> when the constructor throws. \<open>href\<close> is what
  \<^verbatim>\<open>url.toString()\<close> returns.
\<close>

record url =
  protocol :: string
  hostname :: string
  href :: string

definition sanitizeUrl :: "(string \<Rightarrow> url option) \<Rightarrow> string \<Rightarrow> string option" where
  "sanitizeUrl parseURL input =
     (case parseURL input of
        None \<Rightarrow> None
      | Some u \<Rightarrow>
          if protocol u \<notin> set [''http:'', ''https:''] then None
          else if length (hostname u) = 0 \<or> length (hostname u) > 253 then None
          else Some (href u))"

definition sanitizeDid :: "string \<Rightarrow> string option" where
  "sanitizeDid input =
     (let cleaned = toLowerCase (trim input)
      in if \<not> did_regex cleaned then None
         else if length cleaned > 500 then None
         else Some cleaned)"

definition sanitizeHandle :: "string \<Rightarrow> string option" where
  "sanitizeHandle input =
     (let cleaned = toLowerCase (trim input)
      in if \<not> handle_regex cleaned then None
         else if length cleaned = 0 \<or> length cleaned > 253 then None
         else Some cleaned)"

definition sanitizeSessionId :: "string \<Rightarrow> string option" where
  "sanitizeSessionId input =
     (let cleaned = trim input
      in if \<not> sess_regex cleaned then None
         else if length cleaned > 128 then None
         else Some cleaned)"

definition sanitizeDeviceId :: "string \<Rightarrow> string option" where
  "sanitizeDeviceId input =
     (let cleaned = trim input
      in if \<not> dev_regex cleaned then None
         else if length cleaned > 128 then None
         else Some cleaned)"

section \<open>Identifier generation (lib/auth/utils.ts)\<close>

text \<open>
  \<^verbatim>\<open>customAlphabet(alphabet, sz)\<close> belongs to the nanoid package. Its generator reads
  random bytes, masks each one (the mask is 63 for an alphabet of 36 characters), appends
  the character the masked byte selects when there is one, and returns as soon as the
  identifier has \<open>sz\<close> characters. The bytes are the argument of the model; \<open>None\<close>
  means the given bytes ran out before the identifier was complete, where the package
  would ask for more.
\<close>

fun customAlphabet :: "string \<Rightarrow> nat \<Rightarrow> 8 word list \<Rightarrow> string \<Rightarrow> string option" where
  "customAlphabet alphabet sz [] acc = None"
| "customAlphabet alphabet sz (b # bs) acc =
     (let i = unat (b AND 63);
          acc' = (if i < length alphabet then acc @ [alphabet ! i] else acc)
      in if length acc' \<ge> sz then Some acc'
         else customAlphabet alphabet sz bs acc')"

definition nanoid :: "8 word list \<Rightarrow> string option" where
  "nanoid bytes = customAlphabet ''1234567890abcdefghijklmnopqrstuvwxyz'' 21 bytes []"

definition generateSessionId :: "8 word list \<Rightarrow> string option" where
  "generateSessionId bytes = map_option (\<lambda>n. ''sess_'' @ n) (nanoid bytes)"

definition generateDeviceId :: "8 word list \<Rightarrow> string option" where
  "generateDeviceId bytes = map_option (\<lambda>n. ''dev_'' @ n) (nanoid bytes)"

text \<open>The lowercase base-36 alphabet \<^verbatim>\<open>[0-9a-z]\<close>.\<close>
definition is_base36 :: "char \<Rightarrow> bool" where
  "is_base36 c = (is_digit c \<or> is_lower c)"

section \<open>Predicates used in the statements\<close>

text \<open>A string without white space.\<close>

definition no_ws :: "string \<Rightarrow> bool" where
  "no_ws s = list_all (\<lambda>c. \<not> is_ws c) s"

text \<open>A URL parser that knows one address, for the concrete environment below.\<close>

definition example_parseURL :: "string \<Rightarrow> url option" where
  "example_parseURL s =
     (if s = ''HTTP://Example.com'' \<or> s = ''http://example.com/''
      then Some \<lparr>protocol = ''http:'', hostname = ''example.com'', href = ''http://example.com/''\<rparr>
      else None)"

section \<open>Rate limiter (lib/security/rate-limit.ts)\<close>

text \<open>
  The limiter's \<^verbatim>\<open>Map\<close> from identifier to entry is a map; \<^verbatim>\<open>Date.now()\<close> is the
  argument \<open>now\<close>. Counts, limits and millisecond times are integers. \<open>check\<close> runs to
  completion without yielding, so one call is one step on the store.
\<close>

record RateLimitEntry =
  count :: int
  resetTime :: int

type_synonym rate_store = "string \<rightharpoonup> RateLimitEntry"

record check_result =
  allowed :: bool
  remaining :: int
  result_resetTime :: int

definition check ::
  "string \<Rightarrow> int \<Rightarrow> int \<Rightarrow> int \<Rightarrow> rate_store \<Rightarrow> check_result \<times> rate_store" where
  "check identifier limit windowMs now store =
     (let entry = store identifier
      in if entry = None \<or> now > resetTime (the entry) then
           (let rt = now + windowMs
            in (\<lparr>allowed = True, remaining = limit - 1, result_resetTime = rt\<rparr>,
                store(identifier \<mapsto> \<lparr>count = 1, resetTime = rt\<rparr>)))
         else if count (the entry) \<ge> limit then
           (\<lparr>allowed = False, remaining = 0, result_resetTime = resetTime (the entry)\<rparr>, store)
         else
           (let entry' = (the entry)\<lparr>count := count (the entry) + 1\<rparr>
            in (\<lparr>allowed = True, remaining = limit - count entry',
                 result_resetTime = resetTime entry'\<rparr>,
                store(identifier \<mapsto> entry'))))"

text \<open>Consecutive calls for one identifier, at the given clock readings.\<close>

fun checks ::
  "string \<Rightarrow> int \<Rightarrow> int \<Rightarrow> int list \<Rightarrow> rate_store \<Rightarrow> check_result list \<times> rate_store" where
  "checks identifier limit windowMs [] store = ([], store)"
| "checks identifier limit windowMs (now # nows) store =
     (let (r, store') = check identifier limit windowMs now store;
          (rs, store'') = checks identifier limit windowMs nows store'
      in (r # rs, store''))"

text \<open>The sweep: \<^verbatim>\<open>cleanup\<close> deletes every entry whose window has passed.\<close>

definition cleanup :: "int \<Rightarrow> rate_store \<Rightarrow> rate_store" where
  "cleanup now store =
     (\<lambda>k. case store k of
            None \<Rightarrow> None
          | Some entry \<Rightarrow> if now > resetTime entry then None else Some entry)"

record rate_limit_config =
  limit :: int
  windowMs :: int

definition AUTH_SYNC :: rate_limit_config where
  "AUTH_SYNC = \<lparr>limit = 10, windowMs = 60 * 1000\<rparr>"

definition AUTH_ACTIVITY :: rate_limit_config where
  "AUTH_ACTIVITY = \<lparr>limit = 30, windowMs = 60 * 1000\<rparr>"

definition applyRateLimit ::
  "string \<Rightarrow> rate_limit_config \<Rightarrow> int \<Rightarrow> rate_store \<Rightarrow> check_result \<times> rate_store" where
  "applyRateLimit identifier config now store =
     check identifier (limit config) (windowMs config) now store"

section \<open>JSON values and request validation\<close>

text \<open>
  A value read by \<^verbatim>\<open>JSON.parse\<close> or \<^verbatim>\<open>request.json()\<close>. An object is the list of its
  members, with distinct keys; numbers are integers, and no check of the model looks
  inside one.
\<close>

datatype json =
    JNull
  | JBool bool
  | JNum int
  | JStr string
  | JArr "json list"
  | JObj "(string \<times> json) list"

text \<open>Property access \<^verbatim>\<open>v.key\<close> on a parsed value: \<open>None\<close> is \<^verbatim>\<open>undefined\<close>.\<close>

fun member :: "json \<Rightarrow> string \<Rightarrow> json option" where
  "member (JObj kvs) key = map_of kvs key"
| "member _ key = None"

text \<open>
  The zod schemas. A schema takes the member it validates (\<open>None\<close> when the member is
  absent) and returns the issues it found, each named by the path of the member, and the
  parsed value when there is no issue. \<^verbatim>\<open>z.string()\<close> with refinements runs every
  refinement and reports one issue for each that fails.
\<close>

type_synonym issue = "string list"

definition z_string ::
  "issue \<Rightarrow> (string \<Rightarrow> bool) list \<Rightarrow> json option \<Rightarrow> issue list \<times> string option" where
  "z_string path refinements v =
     (case v of
        Some (JStr s) \<Rightarrow>
          (let failed = filter (\<lambda>ok. \<not> ok s) refinements
           in if failed = [] then ([], Some s) else (map (\<lambda>_. path) failed, None))
      | _ \<Rightarrow> ([path], None))"

definition z_optional ::
  "(json option \<Rightarrow> issue list \<times> 'a option) \<Rightarrow> json option \<Rightarrow> issue list \<times> 'a option option" where
  "z_optional schema v =
     (case v of
        None \<Rightarrow> ([], Some None)
      | Some _ \<Rightarrow> (case schema v of (issues, r) \<Rightarrow> (issues, map_option Some r)))"

definition min_len :: "nat \<Rightarrow> string \<Rightarrow> bool" where
  "min_len n s = (n \<le> length s)"

definition max_len :: "nat \<Rightarrow> string \<Rightarrow> bool" where
  "max_len n s = (length s \<le> n)"

record device_info =
  userAgent :: "string option"
  platform :: "string option"

record SessionMetadata =
  deviceInfo :: "device_info option"

definition z_deviceInfo ::
  "(string \<Rightarrow> (string \<Rightarrow> bool) list) \<Rightarrow> json option \<Rightarrow> issue list \<times> device_info option" where
  "z_deviceInfo refine v =
     (case v of
        Some (JObj kvs) \<Rightarrow>
          (let (i1, ua) = z_optional (z_string [''metadata'', ''deviceInfo'', ''userAgent'']
                                        (refine ''userAgent'')) (map_of kvs ''userAgent'');
               (i2, pf) = z_optional (z_string [''metadata'', ''deviceInfo'', ''platform'']
                                        (refine ''platform'')) (map_of kvs ''platform'')
           in case (ua, pf) of
                (Some u, Some p) \<Rightarrow> ([], Some \<lparr>userAgent = u, platform = p\<rparr>)
              | _ \<Rightarrow> (i1 @ i2, None))
      | _ \<Rightarrow> ([[''metadata'', ''deviceInfo'']], None))"

definition z_metadata ::
  "(string \<Rightarrow> (string \<Rightarrow> bool) list) \<Rightarrow> json option \<Rightarrow> issue list \<times> SessionMetadata option" where
  "z_metadata refine v =
     (case v of
        Some (JObj kvs) \<Rightarrow>
          (case z_optional (z_deviceInfo refine) (map_of kvs ''deviceInfo'') of
             (_, Some di) \<Rightarrow> ([], Some \<lparr>deviceInfo = di\<rparr>)
           | (issues, None) \<Rightarrow> (issues, None))
      | _ \<Rightarrow> ([[''metadata'']], None))"

record sync_data =
  did :: string
  handle :: string
  displayName :: "string option"
  avatar :: "string option"
  description :: "string option"
  pds :: "string option"
  sessionId :: string
  deviceId :: string
  metadata :: "SessionMetadata option"

text \<open>
  The object schema of the synchronization route. The two versions of the route differ
  only in the refinements they attach to each string, given here by \<open>refine\<close>.
\<close>

definition z_sync_object ::
  "(string \<Rightarrow> (string \<Rightarrow> bool) list) \<Rightarrow> json \<Rightarrow> issue list + sync_data" where
  "z_sync_object refine body =
     (case body of
        JObj kvs \<Rightarrow>
          (let (i1, v1) = z_string [''did''] (refine ''did'') (map_of kvs ''did'');
               (i2, v2) = z_string [''handle''] (refine ''handle'') (map_of kvs ''handle'');
               (i3, v3) = z_optional (z_string [''displayName''] (refine ''displayName''))
                            (map_of kvs ''displayName'');
               (i4, v4) = z_optional (z_string [''avatar''] (refine ''avatar''))
                            (map_of kvs ''avatar'');
               (i5, v5) = z_optional (z_string [''description''] (refine ''description''))
                            (map_of kvs ''description'');
               (i6, v6) = z_optional (z_string [''pds''] (refine ''pds'')) (map_of kvs ''pds'');
               (i7, v7) = z_string [''sessionId''] (refine ''sessionId'')
                            (map_of kvs ''sessionId'');
               (i8, v8) = z_string [''deviceId''] (refine ''deviceId'') (map_of kvs ''deviceId'');
               (i9, v9) = z_optional (z_metadata refine) (map_of kvs ''metadata'')
           in case (v1, v2, v3, v4, v5, v6, v7, v8, v9) of
                (Some a, Some b, Some c, Some d, Some e, Some f, Some g, Some h, Some i) \<Rightarrow>
                  Inr \<lparr>did = a, handle = b, displayName = c, avatar = d, description = e,
                       pds = f, sessionId = g, deviceId = h, metadata = i\<rparr>
              | _ \<Rightarrow> Inl (i1 @ i2 @ i3 @ i4 @ i5 @ i6 @ i7 @ i8 @ i9))
      | _ \<Rightarrow> Inl [[]])"

text \<open>The schema of \<^verbatim>\<open>app/api/auth/sync/route.ts\<close>: every string is unconstrained.\<close>

definition syncSchema :: "json \<Rightarrow> issue list + sync_data" where
  "syncSchema body = z_sync_object (\<lambda>field. []) body"

text \<open>
  The schema of the hardened synchronization route. \<^verbatim>\<open>.url()\<close> accepts what the
  platform's URL parser accepts.
\<close>

definition hardened_refinements ::
  "(string \<Rightarrow> url option) \<Rightarrow> string \<Rightarrow> (string \<Rightarrow> bool) list" where
  "hardened_refinements parseURL field =
     (if field = ''did'' then [min_len 1, max_len 500, did_regex]
      else if field = ''handle'' then [min_len 1, max_len 253, handle_regex]
      else if field = ''displayName'' then [max_len 64]
      else if field = ''avatar'' then [max_len 2048, \<lambda>s. parseURL s \<noteq> None]
      else if field = ''description'' then [max_len 300]
      else if field = ''pds'' then [max_len 2048, \<lambda>s. parseURL s \<noteq> None]
      else if field = ''sessionId'' then [min_len 1, max_len 128, token_regex]
      else if field = ''deviceId'' then [min_len 1, max_len 128, token_regex]
      else if field = ''userAgent'' then [max_len 512]
      else if field = ''platform'' then [max_len 64]
      else [])"

definition syncSchema_hardened :: "(string \<Rightarrow> url option) \<Rightarrow> json \<Rightarrow> issue list + sync_data" where
  "syncSchema_hardened parseURL body = z_sync_object (hardened_refinements parseURL) body"



text \<open>The schema of the deactivation route: \<^verbatim>\<open>sessionId\<close> is any string.\<close>

definition deactivateSchema :: "json \<Rightarrow> issue list + string" where
  "deactivateSchema body =
     (case body of
        JObj kvs \<Rightarrow>
          (case z_string [''sessionId''] [] (map_of kvs ''sessionId'') of
             (_, Some a) \<Rightarrow> Inr a
           | (issues, None) \<Rightarrow> Inl issues)
      | _ \<Rightarrow> Inl [[]])"

section \<open>The store: users and user_sessions\<close>

text \<open>
  The two tables the routes write, as lists of rows, with the columns the schema
  (\<^verbatim>\<open>server/db/schema.ts\<close>) declares. The routes reach the tables through an ORM
  (Drizzle) on PostgreSQL:
  \<^item> \<^verbatim>\<open>insert(..).values(..).onConflictDoUpdate({target, set})\<close> first builds the row to
    insert, taking the column default where the values name no column; a \<^verbatim>\<open>NOT NULL\<close>
    column left without a value makes the store refuse the statement, before it looks
    for a conflict. Otherwise the row that already holds the target key is updated with
    the columns of \<^verbatim>\<open>set\<close>, or, when there is none, the new row is inserted;
    \<^verbatim>\<open>returning()\<close> gives the rows written;
  \<^item> a key of \<^verbatim>\<open>values\<close> or \<^verbatim>\<open>set\<close> that names no column of the table (the route's
    \<^verbatim>\<open>description\<close>) is ignored, and a column whose value is \<^verbatim>\<open>undefined\<close> is left out
    of the statement: it takes its default in a new row and keeps its value in an
    updated one;
  \<^item> \<open>updated_at\<close> carries the schema's \<^verbatim>\<open>$onUpdate(() => new Date())\<close> hook: the ORM
    calls it for a new row and for every update whose \<^verbatim>\<open>set\<close> does not name the
    column;
  \<^item> \<^verbatim>\<open>update(..).set(..).where(eq(..))\<close> writes the columns of \<^verbatim>\<open>set\<close> in every row
    the condition selects.
  The store also records, in order, the statements it has received.
\<close>

record user_row =
  u_id :: nat
  u_did :: string
  u_handle :: string
  u_displayName :: "string option"
  u_avatar :: "string option"
  u_banner :: "string option"
  u_pds :: string
  u_lastSeenAt :: int
  u_preferences :: json
  u_isActive :: bool
  u_createdAt :: int
  u_updatedAt :: "int option"

record session_row =
  s_id :: nat
  s_userId :: nat
  s_sessionId :: string
  s_deviceId :: "string option"
  s_lastActiveAt :: int
  s_expiresAt :: "int option"
  s_metadata :: SessionMetadata
  s_isActive :: bool
  s_createdAt :: int
  s_updatedAt :: "int option"

datatype statement =
    UpsertUser string
  | UpsertSession string
  | UpdateSession string

record db =
  users :: "user_row list"
  userSessions :: "session_row list"
  statements :: "statement list"

datatype store_error = NotNullViolation string

text \<open>
  The defaults of the two primary keys. The schema declares both as
  \<^verbatim>\<open>d.uuid("id").primaryKey()\<close>, with no default.
\<close>

definition users_id_default :: "nat option" where
  "users_id_default = None"

definition userSessions_id_default :: "nat option" where
  "userSessions_id_default = None"

text \<open>
  What a request handler reads from outside: the clock (\<open>new_Date k\<close> is the value of the
  \<open>k\<close>-th \<^verbatim>\<open>new Date()\<close> in the handler's text, \<open>hook_Date k\<close> what the schema's update
  hook returns in the \<open>k\<close>-th statement of the request, \<open>Date_now\<close> the rate limiter's
  reading), the store's clock, the URL parser, zod's date-time test and the \<^verbatim>\<open>Date\<close>
  constructor on a text.
\<close>

record env =
  Date_now :: int
  new_Date :: "nat \<Rightarrow> int"
  hook_Date :: "nat \<Rightarrow> int"
  CURRENT_TIMESTAMP :: int
  parseURL :: "string \<Rightarrow> url option"
  is_datetime :: "string \<Rightarrow> bool"
  Date_of :: "string \<Rightarrow> int"

text \<open>A column of a \<^verbatim>\<open>set\<close> clause: an \<^verbatim>\<open>undefined\<close> value keeps what the row holds.\<close>

definition set_if_defined :: "'a option \<Rightarrow> 'a option \<Rightarrow> 'a option" where
  "set_if_defined new old = (case new of None \<Rightarrow> old | Some v \<Rightarrow> Some v)"

text \<open>
  \<^verbatim>\<open>db.insert(users).values({..}).onConflictDoUpdate({target: users.did, ..}).returning()\<close>.
  The values name no \<open>id\<close>, so the row to insert takes the column's default, and they
  give \<^verbatim>\<open>data.pds ?? null\<close> for the \<^verbatim>\<open>NOT NULL\<close> column \<open>pds\<close>.
\<close>

definition upsert_user :: "env \<Rightarrow> sync_data \<Rightarrow> db \<Rightarrow> (store_error + user_row list) \<times> db" where
  "upsert_user e data d =
     (let d' = d\<lparr>statements := statements d @ [UpsertUser (did data)]\<rparr>
      in case users_id_default of
           None \<Rightarrow> (Inl (NotNullViolation ''id''), d')
         | Some new_id \<Rightarrow>
             (case pds data of
                None \<Rightarrow> (Inl (NotNullViolation ''pds''), d')
              | Some p \<Rightarrow>
                  if \<exists>u \<in> set (users d). u_did u = did data then
                    (let upd = (\<lambda>u. u\<lparr>u_handle := handle data,
                                       u_displayName :=
                                         set_if_defined (displayName data) (u_displayName u),
                                       u_avatar := set_if_defined (avatar data) (u_avatar u),
                                       u_pds := p,
                                       u_lastSeenAt := new_Date e 1,
                                       u_updatedAt := Some (new_Date e 2)\<rparr>);
                         users' = map (\<lambda>u. if u_did u = did data then upd u else u) (users d)
                     in (Inr (filter (\<lambda>u. u_did u = did data) users'), d'\<lparr>users := users'\<rparr>))
                  else
                    (let row = \<lparr>u_id = new_id, u_did = did data, u_handle = handle data,
                                u_displayName = displayName data, u_avatar = avatar data,
                                u_banner = None, u_pds = p, u_lastSeenAt = new_Date e 0,
                                u_preferences = JObj [], u_isActive = True,
                                u_createdAt = CURRENT_TIMESTAMP e,
                                u_updatedAt = Some (hook_Date e 0)\<rparr>
                     in (Inr [row], d'\<lparr>users := users d @ [row]\<rparr>))))"

text \<open>
  \<^verbatim>\<open>db.insert(userSessions).values({..}).onConflictDoUpdate({target: userSessions.sessionId, ..})\<close>.
  The values name no \<open>id\<close> either; the \<^verbatim>\<open>set\<close> names \<open>lastActiveAt\<close> and \<open>metadata\<close>, and
  the hook adds \<open>updated_at\<close>.
\<close>

definition upsert_session :: "env \<Rightarrow> nat \<Rightarrow> sync_data \<Rightarrow> db \<Rightarrow> (store_error + unit) \<times> db" where
  "upsert_session e userId data d =
     (let d' = d\<lparr>statements := statements d @ [UpsertSession (sessionId data)]\<rparr>;
          md = (case metadata data of None \<Rightarrow> \<lparr>deviceInfo = None\<rparr> | Some m \<Rightarrow> m)
      in case userSessions_id_default of
           None \<Rightarrow> (Inl (NotNullViolation ''id''), d')
         | Some new_id \<Rightarrow>
             if \<exists>s \<in> set (userSessions d). s_sessionId s = sessionId data then
               (Inr (),
                d'\<lparr>userSessions :=
                     map (\<lambda>s. if s_sessionId s = sessionId data
                               then s\<lparr>s_lastActiveAt := new_Date e 4, s_metadata := md,
                                      s_updatedAt := Some (hook_Date e 1)\<rparr>
                               else s)
                         (userSessions d)\<rparr>)
             else
               (Inr (),
                d'\<lparr>userSessions := userSessions d @
                     [\<lparr>s_id = new_id, s_userId = userId, s_sessionId = sessionId data,
                       s_deviceId = Some (deviceId data), s_lastActiveAt = new_Date e 3,
                       s_expiresAt = None, s_metadata = md, s_isActive = True,
                       s_createdAt = CURRENT_TIMESTAMP e,
                       s_updatedAt = Some (hook_Date e 1)\<rparr>]\<rparr>))"

text \<open>\<^verbatim>\<open>db.update(userSessions).set(..).where(eq(userSessions.sessionId, sid)).returning({id})\<close>\<close>

definition update_sessions ::
  "(session_row \<Rightarrow> session_row) \<Rightarrow> string \<Rightarrow> db \<Rightarrow> nat list \<times> db" where
  "update_sessions change sid d =
     (let rows = map (\<lambda>s. if s_sessionId s = sid then change s else s) (userSessions d)
      in (map s_id (filter (\<lambda>s. s_sessionId s = sid) rows),
          d\<lparr>userSessions := rows, statements := statements d @ [UpdateSession sid]\<rparr>))"

section \<open>The route handlers\<close>

datatype payload =
    Success
  | SuccessUser user_row
  | SuccessWarning string
  | Error string
  | ErrorDetails string "issue list"
  | ErrorReset string int

text \<open>A response: status, JSON payload and the headers the handler sets (numbers kept
  as numbers).\<close>

record response =
  status :: nat
  payload :: payload
  headers :: "(string \<times> int) list"

definition json_response :: "nat \<Rightarrow> payload \<Rightarrow> response" where
  "json_response st p = \<lparr>status = st, payload = p, headers = []\<rparr>"

text \<open>A request: the three headers the handlers read, and the body as
  \<^verbatim>\<open>request.json()\<close> returns it (\<open>None\<close> when it throws).\<close>

record request =
  x_forwarded_for :: "string option"
  x_real_ip :: "string option"
  content_type :: "string option"
  body :: "json option"

definition clientIP :: "request \<Rightarrow> string" where
  "clientIP req =
     (case x_forwarded_for req of
        Some ip \<Rightarrow> ip
      | None \<Rightarrow> (case x_real_ip req of Some ip \<Rightarrow> ip | None \<Rightarrow> ''unknown''))"

text \<open>\<^verbatim>\<open>!contentType?.includes("application/json")\<close>\<close>

definition not_json_content :: "request \<Rightarrow> bool" where
  "not_json_content req =
     (case content_type req of
        None \<Rightarrow> True
      | Some ct \<Rightarrow> \<not> includes_str ct ''application/json'')"

text \<open>
  The two upserts of the synchronization route, which both versions of the route share:
  the user by \<open>did\<close>, then the session by \<open>sessionId\<close> under the id of the user row just
  written. What is thrown on the way (a statement the store refuses, or the route's own
  error when no user row comes back) is the left result.
\<close>

datatype thrown = StoreRefused store_error | FailedToCreateOrUpdateUser

definition sync_upserts :: "env \<Rightarrow> sync_data \<Rightarrow> db \<Rightarrow> (thrown + user_row) \<times> db" where
  "sync_upserts e data d =
     (case upsert_user e data d of
        (Inl err, d1) \<Rightarrow> (Inl (StoreRefused err), d1)
      | (Inr [], d1) \<Rightarrow> (Inl FailedToCreateOrUpdateUser, d1)
      | (Inr (user # _), d1) \<Rightarrow>
          (case upsert_session e (u_id user) data d1 of
             (Inl err, d2) \<Rightarrow> (Inl (StoreRefused err), d2)
           | (Inr _, d2) \<Rightarrow> (Inr user, d2)))"

text \<open>\<^verbatim>\<open>POST\<close> of \<^verbatim>\<open>app/api/auth/sync/route.ts\<close>\<close>

definition POST_sync :: "env \<Rightarrow> request \<Rightarrow> db \<Rightarrow> response \<times> db" where
  "POST_sync e req d =
     (case body req of
        None \<Rightarrow> (json_response 500 (Error ''Failed to sync user data''), d)
      | Some b \<Rightarrow>
          (case syncSchema b of
             Inl issues \<Rightarrow> (json_response 500 (Error ''Failed to sync user data''), d)
           | Inr data \<Rightarrow>
               (case sync_upserts e data d of
                  (Inl err, d') \<Rightarrow> (json_response 500 (Error ''Failed to sync user data''), d')
                | (Inr user, d') \<Rightarrow> (json_response 200 (SuccessUser user), d'))))"

text \<open>\<^verbatim>\<open>POST\<close> of the hardened synchronization route. Its state is the rate limiter's
  store and the tables.\<close>

definition POST_sync_hardened ::
  "env \<Rightarrow> request \<Rightarrow> rate_store \<times> db \<Rightarrow> response \<times> (rate_store \<times> db)" where
  "POST_sync_hardened e req st =
     (case st of (store, d) \<Rightarrow>
      (case applyRateLimit (clientIP req) AUTH_SYNC (Date_now e) store of
         (rateLimitResult, store') \<Rightarrow>
           if \<not> allowed rateLimitResult then
             (\<lparr>status = 429,
               payload = ErrorReset ''Rate limit exceeded'' (result_resetTime rateLimitResult),
               headers = [(''X-RateLimit-Limit'', limit AUTH_SYNC),
                          (''X-RateLimit-Remaining'', remaining rateLimitResult),
                          (''X-RateLimit-Reset'', result_resetTime rateLimitResult)]\<rparr>,
              (store', d))
           else if not_json_content req then
             (json_response 400 (Error ''Invalid content type''), (store', d))
           else
             (case body req of
                None \<Rightarrow> (json_response 500 (Error ''Failed to sync user data''), (store', d))
              | Some b \<Rightarrow>
                  (case syncSchema_hardened (parseURL e) b of
                     Inl issues \<Rightarrow>
                       (json_response 400 (ErrorDetails ''Invalid request data'' issues),
                        (store', d))
                   | Inr data \<Rightarrow>
                       if \<not> startsWith (sessionId data) ''sess_'' then
                         (json_response 400 (Error ''Invalid session format''), (store', d))
                       else
                         (case sync_upserts e data d of
                            (Inl err, d') \<Rightarrow>
                              (json_response 500 (Error ''Failed to sync user data''),
                               (store', d'))
                          | (Inr user, d') \<Rightarrow>
                              (json_response 200 (SuccessUser user), (store', d')))))))"


text \<open>\<^verbatim>\<open>POST\<close> of \<^verbatim>\<open>app/api/auth/deactivate/route.ts\<close>\<close>

definition POST_deactivate :: "env \<Rightarrow> request \<Rightarrow> db \<Rightarrow> response \<times> db" where
  "POST_deactivate e req d =
     (case body req of
        None \<Rightarrow> (json_response 500 (Error ''Failed to deactivate session''), d)
      | Some b \<Rightarrow>
          (case deactivateSchema b of
             Inl issues \<Rightarrow> (json_response 500 (Error ''Failed to deactivate session''), d)
           | Inr sid \<Rightarrow>
               (case update_sessions
                       (\<lambda>s. s\<lparr>s_isActive := False, s_updatedAt := Some (new_Date e 0)\<rparr>) sid d of
                  ([], d') \<Rightarrow> (json_response 404 (Error ''Session not found''), d')
                | (deactivatedSession # _, d') \<Rightarrow> (json_response 200 Success, d'))))"

section \<open>Concrete inputs\<close>

text \<open>An environment, an empty store and a well-formed synchronization request that
  names every \<^verbatim>\<open>NOT NULL\<close> column the schema lets a client name, used to exercise the
  statements below.\<close>

definition example_env :: env where
  "example_env =
     \<lparr>Date_now = 1000, new_Date = (\<lambda>k. 1000 + int k), hook_Date = (\<lambda>k. 1000 + int k),
      CURRENT_TIMESTAMP = 1000, parseURL = example_parseURL,
      is_datetime = (\<lambda>s. s = ''2025-01-01T00:00:00.000Z''), Date_of = (\<lambda>s. 500)\<rparr>"

definition empty_db :: db where
  "empty_db = \<lparr>users = [], userSessions = [], statements = []\<rparr>"

definition example_sync_request :: "string \<Rightarrow> request" where
  "example_sync_request h =
     \<lparr>x_forwarded_for = None, x_real_ip = None, content_type = Some ''application/json'',
      body = Some (JObj [(''did'', JStr ''did:plc:abc123''), (''handle'', JStr h),
                         (''pds'', JStr ''http://example.com/''),
                         (''sessionId'', JStr ''sess_0123456789abcdefghijk''),
                         (''deviceId'', JStr ''dev_0123456789abcdefghijk'')])\<rparr>"

section \<open>The authentication client (NymeriaAuth)\<close>

text \<open>
  The client's fields, the browser's \<^verbatim>\<open>localStorage\<close> and the calls the client makes
  to the outside (in order) form the state. What the outside answers is the
  environment of one method call: a capability either throws or returns.
  \<^verbatim>\<open>this.sessionId\<close> holds whatever \<^verbatim>\<open>parsedState?.sessionId\<close> yields, so it is a JSON
  value. A method that needs a fresh identifier and finds too few random bytes does
  not return: its result is \<open>None\<close>.
\<close>

datatype 'a outcome = Throws | Returns 'a

record OAuthSession =
  sub :: string
  session_pds :: "string option"

record init_result =
  init_session :: "OAuthSession option"
  init_state :: "string option"

record profile =
  profile_handle :: string
  profile_displayName :: "string option"
  profile_avatar :: "string option"
  profile_description :: "string option"

record userMetadata =
  um_displayName :: "string option"
  um_avatar :: "string option"
  um_description :: "string option"

record EnhancedSession =
  es_session :: OAuthSession
  es_sessionId :: json
  es_deviceId :: string
  es_userMetadata :: "userMetadata option"
  es_sub :: string
  es_handle :: "string option"
  es_pds :: "string option"

datatype effect =
    OAuthRevoke string
  | Fetch string json
  | RemoveItem string

record client_env =
  has_window :: bool
  oauth_init :: "init_result option outcome"
  oauth_restore :: "string \<Rightarrow> OAuthSession option outcome"
  oauth_revoke :: "string \<Rightarrow> unit outcome"
  getProfile :: "string \<Rightarrow> profile outcome"
  JSON_parse :: "string \<Rightarrow> json outcome"
  fetch :: "string \<Rightarrow> json \<Rightarrow> response outcome"
  random_bytes :: "8 word list"
  navigator_userAgent :: string
  toISOString_now :: string

record NymeriaAuth =
  this_deviceId :: string
  this_sessionId :: json
  localStorage :: "string \<rightharpoonup> string"
  effects :: "effect list"

text \<open>JavaScript truthiness of a JSON value, for \<^verbatim>\<open>!this.sessionId\<close>.\<close>

fun truthy :: "json \<Rightarrow> bool" where
  "truthy JNull = False"
| "truthy (JBool b) = b"
| "truthy (JNum n) = (n \<noteq> 0)"
| "truthy (JStr s) = (s \<noteq> [])"
| "truthy (JArr xs) = True"
| "truthy (JObj kvs) = True"

text \<open>A member of the object given to \<^verbatim>\<open>JSON.stringify\<close>: left out when undefined.\<close>

definition opt_member :: "string \<Rightarrow> string option \<Rightarrow> (string \<times> json) list" where
  "opt_member key v = (case v of None \<Rightarrow> [] | Some s \<Rightarrow> [(key, JStr s)])"

definition fetchUserProfile :: "client_env \<Rightarrow> OAuthSession \<Rightarrow> userMetadata option" where
  "fetchUserProfile env session =
     (case getProfile env (sub session) of
        Throws \<Rightarrow> None
      | Returns p \<Rightarrow>
          Some \<lparr>um_displayName = profile_displayName p, um_avatar = profile_avatar p,
                um_description = profile_description p\<rparr>)"

definition extractPdsFromSession :: "OAuthSession \<Rightarrow> string option" where
  "extractPdsFromSession session =
     (case session_pds session of
        Some p \<Rightarrow> Some p
      | None \<Rightarrow>
          if startsWith (sub session) ''did:plc:'' \<or> startsWith (sub session) ''did:web:''
          then None else None)"

text \<open>The three \<^verbatim>\<open>fetch\<close> helpers catch what \<^verbatim>\<open>fetch\<close> throws and never read the
  response.\<close>

definition post :: "client_env \<Rightarrow> string \<Rightarrow> json \<Rightarrow> NymeriaAuth \<Rightarrow> NymeriaAuth" where
  "post env path b c =
     (case fetch env path b of
        Throws \<Rightarrow> c\<lparr>effects := effects c @ [Fetch path b]\<rparr>
      | Returns r \<Rightarrow> c\<lparr>effects := effects c @ [Fetch path b]\<rparr>)"

definition syncSessionToDatabase ::
  "client_env \<Rightarrow> EnhancedSession \<Rightarrow> NymeriaAuth \<Rightarrow> NymeriaAuth" where
  "syncSessionToDatabase env session c =
     post env ''/api/auth/sync''
       (JObj ([(''did'', JStr (es_sub session)),
               (''handle'', JStr (case es_handle session of Some h \<Rightarrow> h | None \<Rightarrow> es_sub session))]
              @ opt_member ''displayName''
                  (case es_userMetadata session of None \<Rightarrow> None | Some m \<Rightarrow> um_displayName m)
              @ opt_member ''avatar''
                  (case es_userMetadata session of None \<Rightarrow> None | Some m \<Rightarrow> um_avatar m)
              @ opt_member ''description''
                  (case es_userMetadata session of None \<Rightarrow> None | Some m \<Rightarrow> um_description m)
              @ opt_member ''pds'' (es_pds session)
              @ [(''sessionId'', es_sessionId session),
                 (''deviceId'', JStr (es_deviceId session)),
                 (''metadata'',
                  JObj [(''deviceInfo'',
                         JObj [(''userAgent'', JStr (navigator_userAgent env)),
                               (''platform'', JStr ''web'')])])]))
       c"

definition updateSessionActivity ::
  "client_env \<Rightarrow> EnhancedSession \<Rightarrow> NymeriaAuth \<Rightarrow> NymeriaAuth" where
  "updateSessionActivity env session c =
     post env ''/api/auth/activity''
       (JObj [(''sessionId'', es_sessionId session),
              (''lastActiveAt'', JStr (toISOString_now env))])
       c"

definition deactivateSession :: "client_env \<Rightarrow> json \<Rightarrow> NymeriaAuth \<Rightarrow> NymeriaAuth" where
  "deactivateSession env sid c = post env ''/api/auth/deactivate'' (JObj [(''sessionId'', sid)]) c"

text \<open>The enhanced session both \<open>handleCallback\<close> and \<open>restoreSession\<close> build.\<close>

definition enhance ::
  "OAuthSession \<Rightarrow> NymeriaAuth \<Rightarrow> userMetadata option \<Rightarrow> string option \<Rightarrow> EnhancedSession" where
  "enhance session c userMetadata pdsUrl =
     \<lparr>es_session = session,
      es_sessionId = this_sessionId c,
      es_deviceId = this_deviceId c,
      es_userMetadata = userMetadata,
      es_sub = sub session,
      es_handle =
        Some (case (case userMetadata of None \<Rightarrow> None | Some m \<Rightarrow> um_displayName m) of
                Some d \<Rightarrow> d
              | None \<Rightarrow> sub session),
      es_pds = pdsUrl\<rparr>"

text \<open>\<^verbatim>\<open>parsedState?.sessionId\<close>, with \<^verbatim>\<open>null\<close> and \<^verbatim>\<open>undefined\<close> both \<open>None\<close>.\<close>

definition state_sessionId :: "client_env \<Rightarrow> init_result \<Rightarrow> json option" where
  "state_sessionId env initResult =
     (let parsedState =
            (case init_state initResult of
               None \<Rightarrow> None
             | Some st \<Rightarrow>
                 if st = [] then None
                 else (case JSON_parse env st of Throws \<Rightarrow> None | Returns j \<Rightarrow> Some j))
      in case parsedState of
           None \<Rightarrow> None
         | Some j \<Rightarrow>
             (case member j ''sessionId'' of
                None \<Rightarrow> None
              | Some v \<Rightarrow> if v = JNull then None else Some v))"

definition handleCallback ::
  "client_env \<Rightarrow> NymeriaAuth \<Rightarrow> (EnhancedSession option \<times> NymeriaAuth) option" where
  "handleCallback env c =
     (case oauth_init env of
        Throws \<Rightarrow> Some (None, c)
      | Returns None \<Rightarrow> Some (None, c)
      | Returns (Some initResult) \<Rightarrow>
          (case init_session initResult of
             None \<Rightarrow> Some (None, c)
           | Some session \<Rightarrow>
               (case (case state_sessionId env initResult of
                        Some v \<Rightarrow> Some v
                      | None \<Rightarrow> map_option JStr (generateSessionId (random_bytes env))) of
                  None \<Rightarrow> None
                | Some sid \<Rightarrow>
                    (let c1 = c\<lparr>this_sessionId := sid\<rparr>;
                         userMetadata = fetchUserProfile env session;
                         pdsUrl = extractPdsFromSession session;
                         enhancedSession = enhance session c1 userMetadata pdsUrl;
                         c2 = syncSessionToDatabase env enhancedSession c1
                     in Some (Some enhancedSession, c2)))))"

definition restoreSession ::
  "client_env \<Rightarrow> string \<Rightarrow> NymeriaAuth \<Rightarrow> (EnhancedSession option \<times> NymeriaAuth) option" where
  "restoreSession env d c =
     (case oauth_restore env d of
        Throws \<Rightarrow> Some (None, c)
      | Returns None \<Rightarrow> Some (None, c)
      | Returns (Some session) \<Rightarrow>
          (case (if \<not> truthy (this_sessionId c)
                 then map_option JStr (generateSessionId (random_bytes env))
                 else Some (this_sessionId c)) of
             None \<Rightarrow> None
           | Some sid \<Rightarrow>
               (let c1 = c\<lparr>this_sessionId := sid\<rparr>;
                    userMetadata = fetchUserProfile env session;
                    pdsUrl = extractPdsFromSession session;
                    enhancedSession = enhance session c1 userMetadata pdsUrl;
                    c2 = syncSessionToDatabase env enhancedSession c1;
                    c3 = updateSessionActivity env enhancedSession c2
                in Some (Some enhancedSession, c3))))"

text \<open>\<^verbatim>\<open>localStorage.removeItem("nymeria-current-did")\<close> under its \<^verbatim>\<open>typeof window\<close> guard.\<close>

definition clear_current_did :: "client_env \<Rightarrow> NymeriaAuth \<Rightarrow> NymeriaAuth" where
  "clear_current_did env c =
     (if has_window env
      then c\<lparr>localStorage := (localStorage c)(''nymeria-current-did'' := None),
             effects := effects c @ [RemoveItem ''nymeria-current-did'']\<rparr>
      else c)"

definition signOut :: "client_env \<Rightarrow> string \<Rightarrow> NymeriaAuth \<Rightarrow> NymeriaAuth option" where
  "signOut env d c =
     (let c0 = c\<lparr>effects := effects c @ [OAuthRevoke d]\<rparr>
      in case oauth_revoke env d of
           Throws \<Rightarrow> Some (clear_current_did env c0)
         | Returns _ \<Rightarrow>
             (let c1 = deactivateSession env (this_sessionId c0) c0;
                  c2 = clear_current_did env c1
              in case generateSessionId (random_bytes env) of
                   None \<Rightarrow> None
                 | Some sid \<Rightarrow> Some (c2\<lparr>this_sessionId := JStr sid\<rparr>)))"

text \<open>A browser in which every capability answers, and a signed-in client, to exercise
  the statements below.\<close>

definition example_client_env :: client_env where
  "example_client_env =
     \<lparr>has_window = True,
      oauth_init = Returns (Some \<lparr>init_session = Some \<lparr>sub = ''did:plc:abc123'', session_pds = None\<rparr>,
                                 init_state = Some ''{not json''\<rparr>),
      oauth_restore = (\<lambda>d. Returns (Some \<lparr>sub = d, session_pds = None\<rparr>)),
      oauth_revoke = (\<lambda>d. Returns ()),
      getProfile = (\<lambda>actor. Returns \<lparr>profile_handle = ''alice.example'',
                                     profile_displayName = Some ''Alice'',
                                     profile_avatar = None, profile_description = None\<rparr>),
      JSON_parse = (\<lambda>s. Throws),
      fetch = (\<lambda>path b. Throws),
      random_bytes = map of_nat [0..<40],
      navigator_userAgent = ''UA'',
      toISOString_now = ''2025-01-01T00:00:00.000Z''\<rparr>"

definition example_client :: NymeriaAuth where
  "example_client =
     \<lparr>this_deviceId = ''dev_0123456789abcdefghijk'',
      this_sessionId = JStr ''sess_zzzzzzzzzzzzzzzzzzzzz'',
      localStorage = [''nymeria-current-did'' \<mapsto> ''did:plc:abc123''],
      effects = []\<rparr>"

text \<open>The same browser with a provider whose \<^verbatim>\<open>revoke\<close> throws, and with a profile
  service that is down.\<close>

definition revoke_failing_env :: client_env where
  "revoke_failing_env = example_client_env\<lparr>oauth_revoke := (\<lambda>d. Throws)\<rparr>"

definition profile_failing_env :: client_env where
  "profile_failing_env = example_client_env\<lparr>getProfile := (\<lambda>actor. Throws)\<rparr>"

text \<open>A profile answer with the account handle replaced.\<close>

definition with_profile_handle :: "string \<Rightarrow> profile outcome \<Rightarrow> profile outcome" where
  "with_profile_handle h answer =
     (case answer of Throws \<Rightarrow> Throws | Returns p \<Rightarrow> Returns (p\<lparr>profile_handle := h\<rparr>))"

section \<open>Properties of the sanitizers\<close>

lemma code_char_of: "n < 256 \<Longrightarrow> code (char_of n) = n"
  by (simp add: code_def)

lemma lower_char_idem: "lower_char (lower_char c) = lower_char c"
  by (auto simp: lower_char_def Let_def code_char_of)

lemma toLowerCase_idem: "toLowerCase (toLowerCase s) = toLowerCase s"
  by (simp add: toLowerCase_def lower_char_idem)

lemma trim_no_ws: "no_ws s \<Longrightarrow> trim s = s"
proof -
  assume a: "no_ws s"
  have 1: "dropWhile is_ws s = s" using a by (cases s) (auto simp: no_ws_def)
  have "list_all (\<lambda>c. \<not> is_ws c) (rev s)" using a by (simp add: list_all_iff no_ws_def)
  then have 2: "dropWhile is_ws (rev s) = rev s" by (cases "rev s") auto
  show ?thesis by (simp add: trim_def 1 2)
qed

lemma token_char_not_ws: "token_char c \<Longrightarrow> \<not> is_ws c"
  by (auto simp: token_char_def is_alnum_def is_lower_def is_upper_def is_digit_def is_ws_def code_def)

lemma did_char_not_ws: "did_char c \<Longrightarrow> \<not> is_ws c"
  by (auto simp: did_char_def is_alnum_def is_lower_def is_upper_def is_digit_def is_ws_def code_def)

lemma handle_char_not_ws: "handle_char c \<Longrightarrow> \<not> is_ws c"
  by (auto simp: handle_char_def is_alnum_def is_lower_def is_upper_def is_digit_def is_ws_def code_def)

lemma no_ws_split: "no_ws (take n s) \<Longrightarrow> no_ws (drop n s) \<Longrightarrow> no_ws s"
  by (metis append_take_drop_id list_all_append no_ws_def)

lemma sess_regex_no_ws: "sess_regex s \<Longrightarrow> no_ws s"
proof -
  assume a: "sess_regex s"
  then have "take 5 s = ''sess_''" by (simp add: sess_regex_def)
  then have 1: "no_ws (take 5 s)" by (simp add: no_ws_def is_ws_def code_def)
  from a have "list_all token_char (drop 5 s)" by (simp add: sess_regex_def)
  then have 2: "no_ws (drop 5 s)" by (auto simp: no_ws_def list_all_iff dest: token_char_not_ws)
  from 1 2 show ?thesis by (rule no_ws_split)
qed

lemma dev_regex_no_ws: "dev_regex s \<Longrightarrow> no_ws s"
proof -
  assume a: "dev_regex s"
  then have "take 4 s = ''dev_''" by (simp add: dev_regex_def)
  then have 1: "no_ws (take 4 s)" by (simp add: no_ws_def is_ws_def code_def)
  from a have "list_all token_char (drop 4 s)" by (simp add: dev_regex_def)
  then have 2: "no_ws (drop 4 s)" by (auto simp: no_ws_def list_all_iff dest: token_char_not_ws)
  from 1 2 show ?thesis by (rule no_ws_split)
qed

lemma did_regex_no_ws: "did_regex s \<Longrightarrow> no_ws s"
proof -
  assume a: "did_regex s"
  then have "take 8 s = ''did:plc:'' \<or> take 8 s = ''did:web:''" by (simp add: did_regex_def)
  then have 1: "no_ws (take 8 s)" by (auto simp: no_ws_def is_ws_def code_def)
  from a have "list_all did_char (drop 8 s)" by (simp add: did_regex_def)
  then have 2: "no_ws (drop 8 s)" by (auto simp: no_ws_def list_all_iff dest: did_char_not_ws)
  from 1 2 show ?thesis by (rule no_ws_split)
qed

lemma handle_regex_no_ws: "handle_regex s \<Longrightarrow> no_ws s"
  unfolding handle_regex_def
  by (auto simp: no_ws_def list_all_iff dest: handle_char_not_ws)

lemma sanitizeSessionId_Some:
  "sanitizeSessionId x = Some y \<Longrightarrow> y = trim x \<and> sess_regex y \<and> length y \<le> 128"
  by (auto simp: sanitizeSessionId_def Let_def split: if_splits)

lemma sanitizeSessionId_fix: "sess_regex y \<Longrightarrow> length y \<le> 128 \<Longrightarrow> sanitizeSessionId y = Some y"
  by (simp add: sanitizeSessionId_def Let_def trim_no_ws sess_regex_no_ws)

lemma sanitizeDeviceId_Some:
  "sanitizeDeviceId x = Some y \<Longrightarrow> y = trim x \<and> dev_regex y \<and> length y \<le> 128"
  by (auto simp: sanitizeDeviceId_def Let_def split: if_splits)

lemma sanitizeDeviceId_fix: "dev_regex y \<Longrightarrow> length y \<le> 128 \<Longrightarrow> sanitizeDeviceId y = Some y"
  by (simp add: sanitizeDeviceId_def Let_def trim_no_ws dev_regex_no_ws)

lemma sanitizeDid_Some:
  "sanitizeDid x = Some y \<Longrightarrow> y = toLowerCase (trim x) \<and> did_regex y \<and> length y \<le> 500"
  by (auto simp: sanitizeDid_def Let_def split: if_splits)

lemma sanitizeDid_fix:
  "did_regex y \<Longrightarrow> length y \<le> 500 \<Longrightarrow> toLowerCase y = y \<Longrightarrow> sanitizeDid y = Some y"
  by (simp add: sanitizeDid_def Let_def trim_no_ws did_regex_no_ws)

lemma sanitizeHandle_Some:
  "sanitizeHandle x = Some y \<Longrightarrow>
     y = toLowerCase (trim x) \<and> handle_regex y \<and> 0 < length y \<and> length y \<le> 253"
  by (auto simp: sanitizeHandle_def Let_def split: if_splits)

lemma sanitizeHandle_fix:
  "handle_regex y \<Longrightarrow> length y \<le> 253 \<Longrightarrow> toLowerCase y = y \<Longrightarrow> sanitizeHandle y = Some y"
  by (auto simp add: sanitizeHandle_def Let_def trim_no_ws handle_regex_no_ws handle_regex_def)

subsection \<open>nanoid\<close>

lemma customAlphabet_Some:
  "customAlphabet al n bs acc = Some r \<Longrightarrow> length acc < n \<Longrightarrow>
     \<exists>suffix. r = acc @ suffix \<and> length r = n \<and> set suffix \<subseteq> set al"
proof (induction bs arbitrary: acc)
  case Nil
  then show ?case by simp
next
  case (Cons b bs)
  let ?i = "unat (b AND 63)"
  show ?case
  proof (cases "?i < length al")
    case True
    show ?thesis
    proof (cases "n \<le> Suc (length acc)")
      case True
      with \<open>?i < length al\<close> Cons.prems show ?thesis by (auto simp: Let_def)
    next
      case False
      with \<open>?i < length al\<close> Cons.prems
      have "customAlphabet al n bs (acc @ [al ! ?i]) = Some r" by (simp add: Let_def)
      from Cons.IH[OF this] False obtain suffix where
        "r = (acc @ [al ! ?i]) @ suffix" "length r = n" "set suffix \<subseteq> set al" by auto
      with \<open>?i < length al\<close> show ?thesis
        by (intro exI[of _ "al ! ?i # suffix"]) auto
    qed
  next
    case False
    with Cons.prems have "customAlphabet al n bs acc = Some r" by (simp add: Let_def)
    from Cons.IH[OF this Cons.prems(2)] show ?thesis .
  qed
qed

lemma customAlphabet_total:
  "n - length acc \<le> length (filter (\<lambda>b. unat (b AND 63) < length al) bs) \<Longrightarrow> length acc < n \<Longrightarrow>
     customAlphabet al n bs acc \<noteq> None"
proof (induction bs arbitrary: acc)
  case Nil
  then show ?case by simp
next
  case (Cons b bs)
  then show ?case by (auto simp: Let_def)
qed

lemma alphabet_base36: "set ''1234567890abcdefghijklmnopqrstuvwxyz'' \<subseteq> {c. is_base36 c}"
  by (simp add: is_base36_def is_digit_def is_lower_def code_def)

lemma nanoid_Some: "nanoid bytes = Some n \<Longrightarrow> length n = 21 \<and> list_all is_base36 n"
proof -
  assume "nanoid bytes = Some n"
  then have "customAlphabet ''1234567890abcdefghijklmnopqrstuvwxyz'' 21 bytes [] = Some n"
    by (simp add: nanoid_def)
  from customAlphabet_Some[OF this] obtain suffix where
    "n = [] @ suffix" "length n = 21" "set suffix \<subseteq> set ''1234567890abcdefghijklmnopqrstuvwxyz''"
    by auto
  with alphabet_base36 show ?thesis by (auto simp: list_all_iff)
qed

lemma nanoid_total:
  "21 \<le> length (filter (\<lambda>b. unat (b AND 63) < 36) bytes) \<Longrightarrow> nanoid bytes \<noteq> None"
proof -
  assume a: "21 \<le> length (filter (\<lambda>b. unat (b AND 63) < 36) bytes)"
  have l: "length ''1234567890abcdefghijklmnopqrstuvwxyz'' = 36" by simp
  note t = customAlphabet_total[of 21 "[]" "''1234567890abcdefghijklmnopqrstuvwxyz''" bytes,
      unfolded l]
  from a have "21 - length ([]::string) \<le> length (filter (\<lambda>b. unat (b AND 63) < 36) bytes)"
    by simp
  from t[OF this] show ?thesis by (simp add: nanoid_def)
qed


lemma trim_decomp:
  "\<exists>pre post. x = pre @ trim x @ post \<and> list_all is_ws pre \<and> list_all is_ws post"
proof -
  let ?z = "dropWhile is_ws x"
  have 1: "x = takeWhile is_ws x @ ?z" by simp
  have "?z = rev (dropWhile is_ws (rev ?z)) @ rev (takeWhile is_ws (rev ?z))"
    by (metis rev_append rev_rev_ident takeWhile_dropWhile_id)
  then have 2: "?z = trim x @ rev (takeWhile is_ws (rev ?z))"
    by (simp only: trim_def)
  have 3: "list_all is_ws (takeWhile is_ws x)"
    by (auto simp: list_all_iff dest: set_takeWhileD)
  have 4: "list_all is_ws (rev (takeWhile is_ws (rev ?z)))"
    by (auto simp: list_all_iff dest: set_takeWhileD)
  from 1 2 have "x = takeWhile is_ws x @ trim x @ rev (takeWhile is_ws (rev ?z))" by metis
  with 3 4 show ?thesis by blast
qed

subsection \<open>Session and device identifiers are trimmed, not lower-cased\<close>

text \<open>
  Claim C7, as amended. \<open>sanitizeSessionId\<close> and \<open>sanitizeDeviceId\<close> trim the input and
  change nothing else: an accepted value is the input without its surrounding white space
  (letter case kept), it starts with \<^verbatim>\<open>sess_\<close> (\<^verbatim>\<open>dev_\<close>), the rest is a non-empty run of
  \<^verbatim>\<open>[a-zA-Z0-9_-]\<close>, and it has at most 128 characters. The result is the rejection \<open>None\<close>
  exactly when the trimmed input misses the pattern or is longer than 128 characters.
\<close>
theorem sanitize_ids_trim_only:
  "(sanitizeSessionId x = Some y \<longrightarrow>
      y = trim x \<and> (\<exists>pre post. x = pre @ y @ post \<and> list_all is_ws pre \<and> list_all is_ws post)
      \<and> startsWith y ''sess_'' \<and> drop 5 y \<noteq> [] \<and> list_all token_char (drop 5 y)
      \<and> length y \<le> 128)
   \<and> (sanitizeSessionId x = None \<longleftrightarrow> \<not> (sess_regex (trim x) \<and> length (trim x) \<le> 128))
   \<and> (sanitizeDeviceId x = Some d \<longrightarrow>
      d = trim x \<and> (\<exists>pre post. x = pre @ d @ post \<and> list_all is_ws pre \<and> list_all is_ws post)
      \<and> startsWith d ''dev_'' \<and> drop 4 d \<noteq> [] \<and> list_all token_char (drop 4 d)
      \<and> length d \<le> 128)
   \<and> (sanitizeDeviceId x = None \<longleftrightarrow> \<not> (dev_regex (trim x) \<and> length (trim x) \<le> 128))"
proof -
  have l5: "length ''sess_'' = 5" and l4: "length ''dev_'' = 4" by simp_all
  have s: "sanitizeSessionId x = Some y \<Longrightarrow>
      y = trim x \<and> (\<exists>pre post. x = pre @ y @ post \<and> list_all is_ws pre \<and> list_all is_ws post)
      \<and> startsWith y ''sess_'' \<and> drop 5 y \<noteq> [] \<and> list_all token_char (drop 5 y)
      \<and> length y \<le> 128"
    using sanitizeSessionId_Some[of x y] trim_decomp[of x]
    unfolding sess_regex_def startsWith_def l5 by blast
  have d: "sanitizeDeviceId x = Some d \<Longrightarrow>
      d = trim x \<and> (\<exists>pre post. x = pre @ d @ post \<and> list_all is_ws pre \<and> list_all is_ws post)
      \<and> startsWith d ''dev_'' \<and> drop 4 d \<noteq> [] \<and> list_all token_char (drop 4 d)
      \<and> length d \<le> 128"
    using sanitizeDeviceId_Some[of x d] trim_decomp[of x]
    unfolding dev_regex_def startsWith_def l4 by blast
  have sn: "sanitizeSessionId x = None \<longleftrightarrow> \<not> (sess_regex (trim x) \<and> length (trim x) \<le> 128)"
    by (auto simp: sanitizeSessionId_def Let_def)
  have dn: "sanitizeDeviceId x = None \<longleftrightarrow> \<not> (dev_regex (trim x) \<and> length (trim x) \<le> 128)"
    by (auto simp: sanitizeDeviceId_def Let_def)
  from s d sn dn show ?thesis by blast
qed

text \<open>The statement at concrete inputs: an accepted and a rejected value of each kind.\<close>
theorem sanitize_ids_trim_only_witness:
  "sanitizeSessionId ''  sess_ABC-1 '' = Some ''sess_ABC-1''
   \<and> ''sess_ABC-1'' = trim ''  sess_ABC-1 ''
   \<and> startsWith ''sess_ABC-1'' ''sess_''
   \<and> sanitizeSessionId ''sess_'' = None
   \<and> sanitizeDeviceId ''dev_Q7 '' = Some ''dev_Q7''
   \<and> startsWith ''dev_Q7'' ''dev_''
   \<and> sanitizeDeviceId ''dev x'' = None"
proof -
  have h1: "sanitizeSessionId ''  sess_ABC-1 '' = Some ''sess_ABC-1''" by code_simp
  have h2: "\<not> (sess_regex (trim ''sess_'') \<and> length (trim ''sess_'') \<le> 128)" by code_simp
  have h3: "sanitizeDeviceId ''dev_Q7 '' = Some ''dev_Q7''" by code_simp
  have h4: "\<not> (dev_regex (trim ''dev x'') \<and> length (trim ''dev x'') \<le> 128)" by code_simp
  from sanitize_ids_trim_only[of "''  sess_ABC-1 ''" "''sess_ABC-1''" "''dev_Q7''"] h1
  have a: "''sess_ABC-1'' = trim ''  sess_ABC-1 '' \<and> startsWith ''sess_ABC-1'' ''sess_''"
    by blast
  from sanitize_ids_trim_only[of "''sess_''" "''x''" "''x''"] h2
  have b: "sanitizeSessionId ''sess_'' = None" by blast
  from sanitize_ids_trim_only[of "''dev_Q7 ''" "''x''" "''dev_Q7''"] h3
  have c: "startsWith ''dev_Q7'' ''dev_''" by blast
  from sanitize_ids_trim_only[of "''dev x''" "''x''" "''x''"] h4
  have d: "sanitizeDeviceId ''dev x'' = None" by blast
  from h1 a b h3 c d show ?thesis by blast
qed

text \<open>
  Claim C7 as first stated says the two sanitizers lower-case their input. They do not:
  an identifier with capitals is accepted and returned with its capitals.
\<close>
theorem sanitize_ids_lowercase_counterexample:
  "sanitizeSessionId ''sess_ABC'' = Some ''sess_ABC''
   \<and> Some ''sess_ABC'' \<noteq> Some (toLowerCase (trim ''sess_ABC''))
   \<and> sanitizeDeviceId ''dev_ABC'' = Some ''dev_ABC''
   \<and> Some ''dev_ABC'' \<noteq> Some (toLowerCase (trim ''dev_ABC''))"
  by code_simp

subsection \<open>Idempotence of the sanitizers\<close>

text \<open>
  The four identifier sanitizers are idempotent: a value one of them accepts matches
  its pattern, respects its length bound, carries no surrounding white space (and no
  capitals, for the first two), and is returned unchanged when sanitized again.
\<close>

lemma identifier_sanitizers_idempotent:
  "(sanitizeDid x = Some y \<longrightarrow>
      did_regex y \<and> length y \<le> 500 \<and> toLowerCase y = y \<and> trim y = y
      \<and> sanitizeDid y = Some y)
   \<and> (sanitizeHandle x = Some y \<longrightarrow>
      handle_regex y \<and> 0 < length y \<and> length y \<le> 253 \<and> toLowerCase y = y \<and> trim y = y
      \<and> sanitizeHandle y = Some y)
   \<and> (sanitizeSessionId x = Some y \<longrightarrow>
      sess_regex y \<and> length y \<le> 128 \<and> trim y = y \<and> sanitizeSessionId y = Some y)
   \<and> (sanitizeDeviceId x = Some y \<longrightarrow>
      dev_regex y \<and> length y \<le> 128 \<and> trim y = y \<and> sanitizeDeviceId y = Some y)"
proof -
  have did: "sanitizeDid x = Some y \<Longrightarrow>
      did_regex y \<and> length y \<le> 500 \<and> toLowerCase y = y \<and> trim y = y \<and> sanitizeDid y = Some y"
  proof -
    assume a: "sanitizeDid x = Some y"
    from sanitizeDid_Some[OF a] have y: "y = toLowerCase (trim x)" "did_regex y" "length y \<le> 500"
      by blast+
    from y(1) have l: "toLowerCase y = y" by (simp add: toLowerCase_idem)
    from y(2) have t: "trim y = y" by (simp add: trim_no_ws did_regex_no_ws)
    from y l t sanitizeDid_fix[OF y(2) y(3) l] show ?thesis by simp
  qed
  have hdl: "sanitizeHandle x = Some y \<Longrightarrow>
      handle_regex y \<and> 0 < length y \<and> length y \<le> 253 \<and> toLowerCase y = y \<and> trim y = y
      \<and> sanitizeHandle y = Some y"
  proof -
    assume a: "sanitizeHandle x = Some y"
    from sanitizeHandle_Some[OF a] have y: "y = toLowerCase (trim x)" "handle_regex y"
      "0 < length y" "length y \<le> 253"
      by blast+
    from y(1) have l: "toLowerCase y = y" by (simp add: toLowerCase_idem)
    from y(2) have t: "trim y = y" by (simp add: trim_no_ws handle_regex_no_ws)
    from y l t sanitizeHandle_fix[OF y(2) y(4) l] show ?thesis by simp
  qed
  have ses: "sanitizeSessionId x = Some y \<Longrightarrow>
      sess_regex y \<and> length y \<le> 128 \<and> trim y = y \<and> sanitizeSessionId y = Some y"
    using sanitizeSessionId_Some[of x y]
    by (metis sanitizeSessionId_fix trim_no_ws sess_regex_no_ws)
  have dev: "sanitizeDeviceId x = Some y \<Longrightarrow>
      dev_regex y \<and> length y \<le> 128 \<and> trim y = y \<and> sanitizeDeviceId y = Some y"
    using sanitizeDeviceId_Some[of x y]
    by (metis sanitizeDeviceId_fix trim_no_ws dev_regex_no_ws)
  from did hdl ses dev show ?thesis by blast
qed

text \<open>
  Claim C6 fails on \<open>sanitizeText\<close>, which is not idempotent. It trims before it removes
  control characters, so a space that follows a leading control character survives the
  first pass: the result starts with a space, which the second pass trims.
\<close>

theorem sanitizeText_not_idempotent:
  "sanitizeText [CHR 0x00, CHR '' '', CHR ''a''] = '' a''
   \<and> sanitizeText (sanitizeText [CHR 0x00, CHR '' '', CHR ''a'']) = ''a''
   \<and> sanitizeText (sanitizeText [CHR 0x00, CHR '' '', CHR ''a''])
       \<noteq> sanitizeText [CHR 0x00, CHR '' '', CHR ''a'']"
  by code_simp

subsection \<open>The shape of generated identifiers\<close>

text \<open>
  Claim C9. Every value \<open>generateSessionId\<close> returns is \<^verbatim>\<open>sess_\<close> followed by exactly 21
  characters of \<^verbatim>\<open>[0-9a-z]\<close>, and every value \<open>generateDeviceId\<close> returns is \<^verbatim>\<open>dev_\<close>
  followed by exactly 21 such characters. Both return a value as soon as the random
  bytes hold 21 bytes that select a character of the alphabet.
\<close>
theorem generated_ids_format:
  "(generateSessionId bytes = Some s \<longrightarrow>
      (\<exists>suffix. s = ''sess_'' @ suffix \<and> length suffix = 21 \<and> list_all is_base36 suffix))
   \<and> (generateDeviceId bytes = Some d \<longrightarrow>
      (\<exists>suffix. d = ''dev_'' @ suffix \<and> length suffix = 21 \<and> list_all is_base36 suffix))
   \<and> (21 \<le> length (filter (\<lambda>b. unat (b AND 63) < 36) bytes) \<longrightarrow>
      generateSessionId bytes \<noteq> None \<and> generateDeviceId bytes \<noteq> None)"
proof -
  have a: "generateSessionId bytes = Some s \<Longrightarrow>
      \<exists>suffix. s = ''sess_'' @ suffix \<and> length suffix = 21 \<and> list_all is_base36 suffix"
    unfolding generateSessionId_def using nanoid_Some[of bytes] by auto
  have b: "generateDeviceId bytes = Some d \<Longrightarrow>
      \<exists>suffix. d = ''dev_'' @ suffix \<and> length suffix = 21 \<and> list_all is_base36 suffix"
    unfolding generateDeviceId_def using nanoid_Some[of bytes] by auto
  have c: "21 \<le> length (filter (\<lambda>b. unat (b AND 63) < 36) bytes) \<Longrightarrow>
      generateSessionId bytes \<noteq> None \<and> generateDeviceId bytes \<noteq> None"
    using nanoid_total[of bytes] by (simp add: generateSessionId_def generateDeviceId_def)
  from a b c show ?thesis by blast
qed

text \<open>The statement at a concrete run of random bytes.\<close>
theorem generated_ids_format_witness:
  "generateSessionId (map of_nat [0..<40]) = Some ''sess_1234567890abcdefghijk''
   \<and> generateDeviceId (map of_nat [0..<40]) = Some ''dev_1234567890abcdefghijk''
   \<and> (\<exists>suffix. ''sess_1234567890abcdefghijk'' = ''sess_'' @ suffix \<and> length suffix = 21
        \<and> list_all is_base36 suffix)
   \<and> (\<exists>suffix. ''dev_1234567890abcdefghijk'' = ''dev_'' @ suffix \<and> length suffix = 21
        \<and> list_all is_base36 suffix)
   \<and> generateSessionId (map of_nat [0..<40]) \<noteq> None"
proof -
  have h1: "generateSessionId (map of_nat [0..<40]) = Some ''sess_1234567890abcdefghijk''"
    by code_simp
  have h2: "generateDeviceId (map of_nat [0..<40]) = Some ''dev_1234567890abcdefghijk''"
    by code_simp
  have h3: "21 \<le> length (filter (\<lambda>b. unat (b AND 63) < 36) (map of_nat [0..<40] :: 8 word list))"
    by code_simp
  from generated_ids_format[of "map of_nat [0..<40]" "''sess_1234567890abcdefghijk''"
      "''dev_1234567890abcdefghijk''"] h1 h2 h3
  show ?thesis by blast
qed

section \<open>Properties of the rate limiter\<close>

lemma check_within:
  assumes "store k = Some \<lparr>count = c, resetTime = R\<rparr>" "now \<le> R" "c < N"
  shows "check k N W now store =
     (\<lparr>allowed = True, remaining = N - (c + 1), result_resetTime = R\<rparr>,
      store(k \<mapsto> \<lparr>count = c + 1, resetTime = R\<rparr>))"
  using assms by (simp add: check_def Let_def)

lemma check_exhausted:
  assumes "store k = Some \<lparr>count = c, resetTime = R\<rparr>" "now \<le> R" "N \<le> c"
  shows "check k N W now store =
     (\<lparr>allowed = False, remaining = 0, result_resetTime = R\<rparr>, store)"
  using assms by (simp add: check_def Let_def)

lemma check_fresh:
  assumes "store k = None \<or> (\<exists>e. store k = Some e \<and> now > resetTime e)"
  shows "check k N W now store =
     (\<lparr>allowed = True, remaining = N - 1, result_resetTime = now + W\<rparr>,
      store(k \<mapsto> \<lparr>count = 1, resetTime = now + W\<rparr>))"
  using assms by (auto simp add: check_def Let_def)

lemma checks_within:
  assumes "store k = Some \<lparr>count = c, resetTime = R\<rparr>"
    and "\<forall>t \<in> set ts. t \<le> R"
    and "c + int (length ts) \<le> N"
    and "checks k N W ts store = (rs, store')"
  shows "length rs = length ts
       \<and> (\<forall>r \<in> set rs. allowed r \<and> result_resetTime r = R)
       \<and> store' = store(k \<mapsto> \<lparr>count = c + int (length ts), resetTime = R\<rparr>)"
  using assms
proof (induction ts arbitrary: store c rs store')
  case Nil
  then show ?case by (auto simp: fun_upd_idem)
next
  case (Cons t ts)
  let ?s1 = "store(k \<mapsto> \<lparr>count = c + 1, resetTime = R\<rparr>)"
  from Cons.prems have c1: "check k N W t store =
     (\<lparr>allowed = True, remaining = N - (c + 1), result_resetTime = R\<rparr>, ?s1)"
    by (intro check_within) auto
  obtain rs1 s2 where rest: "checks k N W ts ?s1 = (rs1, s2)" by fastforce
  from Cons.prems(4) c1 rest
  have rs: "rs = \<lparr>allowed = True, remaining = N - (c + 1), result_resetTime = R\<rparr> # rs1"
    and s': "store' = s2" by simp_all
  have "length rs1 = length ts
       \<and> (\<forall>r \<in> set rs1. allowed r \<and> result_resetTime r = R)
       \<and> s2 = ?s1(k \<mapsto> \<lparr>count = (c + 1) + int (length ts), resetTime = R\<rparr>)"
    using Cons.prems(2,3) by (intro Cons.IH[OF _ _ _ rest]) auto
  with rs s' show ?case by (auto simp: add.assoc)
qed

text \<open>
  Claim C2. Let the call at time \<open>t0\<close> open a window for \<open>key\<close> (there is no entry, or
  the entry's window has passed), and let the calls that follow come no later than the
  window's reset time \<open>t0 + W\<close>. With limit \<open>N \<ge> 1\<close>, the first \<open>N\<close> calls are
  all allowed; the next one is denied, with \<open>remaining = 0\<close> and the reset time still
  \<open>t0 + W\<close>, and leaves the store as it is; and a call made strictly after the reset
  time is allowed and starts a fresh window whose count is 1.
\<close>

theorem rate_limit_window:
  assumes "1 \<le> N"
    and "store key = None \<or> (\<exists>e. store key = Some e \<and> t0 > resetTime e)"
    and "int (length ts) = N - 1"
    and "\<forall>t \<in> set ts. t \<le> t0 + W"
    and "t \<le> t0 + W"
    and "checks key N W (t0 # ts) store = (rs, store')"
  shows "int (length rs) = N
       \<and> (\<forall>r \<in> set rs. allowed r \<and> result_resetTime r = t0 + W)
       \<and> check key N W t store' =
           (\<lparr>allowed = False, remaining = 0, result_resetTime = t0 + W\<rparr>, store')
       \<and> (\<forall>t'. t' > t0 + W \<longrightarrow>
            check key N W t' store' =
              (\<lparr>allowed = True, remaining = N - 1, result_resetTime = t' + W\<rparr>,
               store'(key \<mapsto> \<lparr>count = 1, resetTime = t' + W\<rparr>)))"
proof -
  let ?s1 = "store(key \<mapsto> \<lparr>count = 1, resetTime = t0 + W\<rparr>)"
  let ?r1 = "\<lparr>allowed = True, remaining = N - 1, result_resetTime = t0 + W\<rparr>"
  have c1: "check key N W t0 store = (?r1, ?s1)"
    using assms(2) by (rule check_fresh)
  obtain rs1 s2 where rest: "checks key N W ts ?s1 = (rs1, s2)" by fastforce
  from assms(6) c1 rest have rs: "rs = ?r1 # rs1" and s': "store' = s2" by simp_all
  have w: "length rs1 = length ts
       \<and> (\<forall>r \<in> set rs1. allowed r \<and> result_resetTime r = t0 + W)
       \<and> s2 = ?s1(key \<mapsto> \<lparr>count = 1 + int (length ts), resetTime = t0 + W\<rparr>)"
    using assms(3,4) by (intro checks_within[OF _ _ _ rest]) auto
  with assms(3) s' have e: "store' key = Some \<lparr>count = N, resetTime = t0 + W\<rparr>" by simp
  have len: "int (length rs) = N" using rs w assms(3) by simp
  have al: "\<forall>r \<in> set rs. allowed r \<and> result_resetTime r = t0 + W" using rs w by simp
  have deny: "check key N W t store' =
      (\<lparr>allowed = False, remaining = 0, result_resetTime = t0 + W\<rparr>, store')"
    using e assms(5) by (intro check_exhausted) auto
  have fresh: "\<forall>t'. t' > t0 + W \<longrightarrow>
            check key N W t' store' =
              (\<lparr>allowed = True, remaining = N - 1, result_resetTime = t' + W\<rparr>,
               store'(key \<mapsto> \<lparr>count = 1, resetTime = t' + W\<rparr>))"
    using e by (auto intro!: check_fresh)
  from len al deny fresh show ?thesis by blast
qed


text \<open>The statement for a limit of 3 in a window of one second.\<close>

theorem rate_limit_window_witness:
  "fst (checks ''1.2.3.4'' 3 1000 [5, 600, 1005] Map.empty) =
     [\<lparr>allowed = True, remaining = 2, result_resetTime = 1005\<rparr>,
      \<lparr>allowed = True, remaining = 1, result_resetTime = 1005\<rparr>,
      \<lparr>allowed = True, remaining = 0, result_resetTime = 1005\<rparr>]
   \<and> fst (check ''1.2.3.4'' 3 1000 1005 (snd (checks ''1.2.3.4'' 3 1000 [5, 600, 1005] Map.empty)))
       = \<lparr>allowed = False, remaining = 0, result_resetTime = 1005\<rparr>
   \<and> fst (check ''1.2.3.4'' 3 1000 1006 (snd (checks ''1.2.3.4'' 3 1000 [5, 600, 1005] Map.empty)))
       = \<lparr>allowed = True, remaining = 2, result_resetTime = 2006\<rparr>"
proof -
  obtain rs s where c: "checks ''1.2.3.4'' 3 1000 (5 # [600, 1005]) Map.empty = (rs, s)"
    by fastforce
  have rs: "rs = [\<lparr>allowed = True, remaining = 2, result_resetTime = 1005\<rparr>,
      \<lparr>allowed = True, remaining = 1, result_resetTime = 1005\<rparr>,
      \<lparr>allowed = True, remaining = 0, result_resetTime = 1005\<rparr>]"
    using c by (simp add: check_def Let_def)
  from rate_limit_window[of 3 Map.empty "''1.2.3.4''" 5 "[600, 1005]" 1000 1005 rs s, OF _ _ _ _ _ c]
  have "check ''1.2.3.4'' 3 1000 1005 s =
           (\<lparr>allowed = False, remaining = 0, result_resetTime = 1005\<rparr>, s)
       \<and> check ''1.2.3.4'' 3 1000 1006 s =
              (\<lparr>allowed = True, remaining = 2, result_resetTime = 2006\<rparr>,
               s(''1.2.3.4'' \<mapsto> \<lparr>count = 1, resetTime = 2006\<rparr>))"
    by simp
  with c rs show ?thesis by simp
qed

section \<open>Properties of the synchronization upserts\<close>


lemma upsert_user_refused:
  "upsert_user e data d =
     (Inl (NotNullViolation ''id''), d\<lparr>statements := statements d @ [UpsertUser (did data)]\<rparr>)"
  by (simp add: upsert_user_def users_id_default_def)

lemma sync_upserts_refused:
  "sync_upserts e data d =
     (Inl (StoreRefused (NotNullViolation ''id'')),
      d\<lparr>statements := statements d @ [UpsertUser (did data)]\<rparr>)"
  by (simp add: sync_upserts_def upsert_user_refused)

text \<open>
  Claim C1 fails on the first statement of the route. The insert into \<open>users\<close> names no
  \<open>id\<close>, and the schema gives the primary key no default, so the store refuses the
  statement whatever the request and whatever the table holds; the route answers 500
  and no row is written. After two well-formed requests for the same \<open>did\<close> and
  \<open>sessionId\<close> on an empty store, in either version of the route, both tables are still
  empty, where the claim has exactly one row in each.
\<close>

theorem sync_insert_is_refused:
  "fst (sync_upserts e data d) = Inl (StoreRefused (NotNullViolation ''id''))
   \<and> users (snd (sync_upserts e data d)) = users d
   \<and> userSessions (snd (sync_upserts e data d)) = userSessions d
   \<and> POST_sync example_env (example_sync_request ''alice.example'') empty_db
       = (\<lparr>status = 500, payload = Error ''Failed to sync user data'', headers = []\<rparr>,
          \<lparr>users = [], userSessions = [], statements = [UpsertUser ''did:plc:abc123'']\<rparr>)
   \<and> POST_sync example_env (example_sync_request ''bob.example'')
        (snd (POST_sync example_env (example_sync_request ''alice.example'') empty_db))
       = (\<lparr>status = 500, payload = Error ''Failed to sync user data'', headers = []\<rparr>,
          \<lparr>users = [], userSessions = [],
           statements = [UpsertUser ''did:plc:abc123'', UpsertUser ''did:plc:abc123'']\<rparr>)
   \<and> fst (POST_sync_hardened example_env (example_sync_request ''alice.example'')
             (Map.empty, empty_db))
       = \<lparr>status = 500, payload = Error ''Failed to sync user data'', headers = []\<rparr>
   \<and> users (snd (snd (POST_sync_hardened example_env (example_sync_request ''alice.example'')
             (Map.empty, empty_db)))) = []
   \<and> userSessions (snd (snd (POST_sync_hardened example_env
             (example_sync_request ''alice.example'') (Map.empty, empty_db)))) = []"
proof -
  have g: "fst (sync_upserts e data d) = Inl (StoreRefused (NotNullViolation ''id''))
      \<and> users (snd (sync_upserts e data d)) = users d
      \<and> userSessions (snd (sync_upserts e data d)) = userSessions d"
    by (simp add: sync_upserts_refused)
  have p: "syncSchema (JObj [(''did'', JStr ''did:plc:abc123''), (''handle'', JStr h),
                         (''pds'', JStr ''http://example.com/''),
                         (''sessionId'', JStr ''sess_0123456789abcdefghijk''),
                         (''deviceId'', JStr ''dev_0123456789abcdefghijk'')])
      = Inr \<lparr>did = ''did:plc:abc123'', handle = h, displayName = None, avatar = None,
             description = None, pds = Some ''http://example.com/'',
             sessionId = ''sess_0123456789abcdefghijk'',
             deviceId = ''dev_0123456789abcdefghijk'', metadata = None\<rparr>" for h
    by (simp add: syncSchema_def z_sync_object_def z_string_def z_optional_def)
  have a: "POST_sync example_env (example_sync_request h) d0
       = (\<lparr>status = 500, payload = Error ''Failed to sync user data'', headers = []\<rparr>,
          d0\<lparr>statements := statements d0 @ [UpsertUser ''did:plc:abc123'']\<rparr>)" for h d0
    by (simp add: POST_sync_def example_sync_request_def p sync_upserts_refused
        json_response_def)
  have a1: "POST_sync example_env (example_sync_request ''alice.example'') empty_db
       = (\<lparr>status = 500, payload = Error ''Failed to sync user data'', headers = []\<rparr>,
          \<lparr>users = [], userSessions = [], statements = [UpsertUser ''did:plc:abc123'']\<rparr>)"
    by (simp add: a empty_db_def)
  have a2: "POST_sync example_env (example_sync_request ''bob.example'')
        (snd (POST_sync example_env (example_sync_request ''alice.example'') empty_db))
       = (\<lparr>status = 500, payload = Error ''Failed to sync user data'', headers = []\<rparr>,
          \<lparr>users = [], userSessions = [],
           statements = [UpsertUser ''did:plc:abc123'', UpsertUser ''did:plc:abc123'']\<rparr>)"
    by (simp add: a empty_db_def)
  have h: "fst (POST_sync_hardened example_env (example_sync_request ''alice.example'')
             (Map.empty, empty_db))
       = \<lparr>status = 500, payload = Error ''Failed to sync user data'', headers = []\<rparr>"
    "users (snd (snd (POST_sync_hardened example_env (example_sync_request ''alice.example'')
             (Map.empty, empty_db)))) = []"
    "userSessions (snd (snd (POST_sync_hardened example_env
             (example_sync_request ''alice.example'') (Map.empty, empty_db)))) = []"
    by code_simp+
  from g a1 a2 h show ?thesis by simp
qed

section \<open>Properties of the activity and deactivation routes\<close>


lemma post_fetch_irrelevant: "post (env\<lparr>fetch := f\<rparr>) path b c = post env path b c"
  by (simp add: post_def split: outcome.splits)

lemma helpers_fetch_irrelevant:
  "deactivateSession (env\<lparr>fetch := f\<rparr>) sid c = deactivateSession env sid c"
  "clear_current_did (env\<lparr>fetch := f\<rparr>) c = clear_current_did env c"
  "syncSessionToDatabase (env\<lparr>fetch := f\<rparr>) es c = syncSessionToDatabase env es c"
  "updateSessionActivity (env\<lparr>fetch := f\<rparr>) es c = updateSessionActivity env es c"
  "fetchUserProfile (env\<lparr>fetch := f\<rparr>) session = fetchUserProfile env session"
  by (simp_all add: deactivateSession_def clear_current_did_def syncSessionToDatabase_def
      updateSessionActivity_def fetchUserProfile_def post_fetch_irrelevant)

lemma signOut_fetch_irrelevant: "signOut (env\<lparr>fetch := f\<rparr>) d c = signOut env d c"
  by (simp add: signOut_def helpers_fetch_irrelevant Let_def
      split: outcome.splits option.splits)




text \<open>
  Claim C3 fails on the deactivation route, whose schema takes any string as
  \<open>sessionId\<close>: a value that does not match the session-id pattern is handed to the
  store's \<^verbatim>\<open>update\<close> statement, where the activity route next to it rejects such a
  value in its schema.
\<close>

theorem unvalidated_session_id_reaches_store:
  "\<not> sess_regex ''not a session id''
   \<and> statements (snd (POST_deactivate e
        \<lparr>x_forwarded_for = None, x_real_ip = None, content_type = Some ''application/json'',
         body = Some (JObj [(''sessionId'', JStr ''not a session id'')])\<rparr> d))
       = statements d @ [UpdateSession ''not a session id'']"
proof -
  have 1: "\<not> sess_regex ''not a session id''" by code_simp
  have 2: "statements (snd (POST_deactivate e
        \<lparr>x_forwarded_for = None, x_real_ip = None, content_type = Some ''application/json'',
         body = Some (JObj [(''sessionId'', JStr ''not a session id'')])\<rparr> d))
       = statements d @ [UpdateSession ''not a session id'']"
    by (simp add: POST_deactivate_def deactivateSchema_def z_string_def update_sessions_def
        Let_def split: list.splits)
  from 1 2 show ?thesis by blast
qed

section \<open>Properties of the client\<close>

lemma generateSessionId_total:
  "21 \<le> length (filter (\<lambda>b. unat (b AND 63) < 36) bytes) \<Longrightarrow>
     \<exists>sid. generateSessionId bytes = Some sid"
  using nanoid_total[of bytes] by (auto simp: generateSessionId_def)

text \<open>
  Claim C4. \<open>handleCallback\<close> returns \<^verbatim>\<open>null\<close>, and leaves the client as it was, whenever
  the provider's \<^verbatim>\<open>init\<close> throws, returns nothing or returns a result without a
  session. When \<^verbatim>\<open>init\<close> returns a session together with a state that \<^verbatim>\<open>JSON.parse\<close>
  rejects, and the random bytes suffice for one identifier, \<open>handleCallback\<close> returns an
  enhanced session for that provider session whose \<open>sessionId\<close> is the identifier
  \<open>generateSessionId\<close> has just produced; this holds whatever the profile fetch and the
  synchronization request do.
\<close>

theorem handleCallback_no_session_or_bad_state:
  "((oauth_init env = Throws \<or> oauth_init env = Returns None
       \<or> (\<exists>r. oauth_init env = Returns (Some r) \<and> init_session r = None))
      \<longrightarrow> handleCallback env c = Some (None, c))
   \<and> (oauth_init env = Returns (Some r) \<and> init_session r = Some s
       \<and> init_state r = Some st \<and> st \<noteq> [] \<and> JSON_parse env st = Throws
       \<and> 21 \<le> length (filter (\<lambda>b. unat (b AND 63) < 36) (random_bytes env))
      \<longrightarrow> (\<exists>es c' sid. handleCallback env c = Some (Some es, c')
             \<and> generateSessionId (random_bytes env) = Some sid
             \<and> es_sessionId es = JStr sid \<and> this_sessionId c' = JStr sid
             \<and> es_session es = s \<and> es_sub es = sub s
             \<and> es_deviceId es = this_deviceId c))"
proof -
  have a: "(oauth_init env = Throws \<or> oauth_init env = Returns None
       \<or> (\<exists>r. oauth_init env = Returns (Some r) \<and> init_session r = None))
      \<Longrightarrow> handleCallback env c = Some (None, c)"
    by (auto simp: handleCallback_def)
  have b: "oauth_init env = Returns (Some r) \<and> init_session r = Some s
       \<and> init_state r = Some st \<and> st \<noteq> [] \<and> JSON_parse env st = Throws
       \<and> 21 \<le> length (filter (\<lambda>b. unat (b AND 63) < 36) (random_bytes env))
      \<Longrightarrow> (\<exists>es c' sid. handleCallback env c = Some (Some es, c')
             \<and> generateSessionId (random_bytes env) = Some sid
             \<and> es_sessionId es = JStr sid \<and> this_sessionId c' = JStr sid
             \<and> es_session es = s \<and> es_sub es = sub s
             \<and> es_deviceId es = this_deviceId c)"
  proof -
    assume h: "oauth_init env = Returns (Some r) \<and> init_session r = Some s
       \<and> init_state r = Some st \<and> st \<noteq> [] \<and> JSON_parse env st = Throws
       \<and> 21 \<le> length (filter (\<lambda>b. unat (b AND 63) < 36) (random_bytes env))"
    then obtain sid where sid: "generateSessionId (random_bytes env) = Some sid"
      using generateSessionId_total by blast
    from h have st: "state_sessionId env r = None" by (simp add: state_sessionId_def)
    from h st sid show ?thesis
      by (simp add: handleCallback_def Let_def enhance_def syncSessionToDatabase_def post_def
          split: outcome.splits)
  qed
  from a b show ?thesis by blast
qed

text \<open>The statement in a browser whose provider returns a session and an unparsable
  state, and in one whose provider returns nothing.\<close>

theorem handleCallback_no_session_or_bad_state_witness:
  "handleCallback (example_client_env\<lparr>oauth_init := Returns None\<rparr>) example_client
     = Some (None, example_client)
   \<and> (\<exists>es c'. handleCallback example_client_env example_client = Some (Some es, c')
        \<and> es_sessionId es = JStr ''sess_1234567890abcdefghijk''
        \<and> this_sessionId c' = JStr ''sess_1234567890abcdefghijk''
        \<and> es_sub es = ''did:plc:abc123'')"
proof -
  have g: "generateSessionId (random_bytes example_client_env) = Some ''sess_1234567890abcdefghijk''"
    unfolding example_client_env_def by code_simp
  have n: "21 \<le> length (filter (\<lambda>b. unat (b AND 63) < 36) (random_bytes example_client_env))"
    unfolding example_client_env_def by code_simp
  have 1: "handleCallback (example_client_env\<lparr>oauth_init := Returns None\<rparr>) example_client
     = Some (None, example_client)"
    using handleCallback_no_session_or_bad_state[where
        env = "example_client_env\<lparr>oauth_init := Returns None\<rparr>" and c = example_client]
    by simp
  have 2: "\<exists>es c'. handleCallback example_client_env example_client = Some (Some es, c')
        \<and> es_sessionId es = JStr ''sess_1234567890abcdefghijk''
        \<and> this_sessionId c' = JStr ''sess_1234567890abcdefghijk''
        \<and> es_sub es = ''did:plc:abc123''"
    using handleCallback_no_session_or_bad_state[where env = example_client_env
        and r = "\<lparr>init_session = Some \<lparr>sub = ''did:plc:abc123'', session_pds = None\<rparr>,
          init_state = Some ''{not json''\<rparr>"
        and s = "\<lparr>sub = ''did:plc:abc123'', session_pds = None\<rparr>" and st = "''{not json''"
        and c = example_client] g n
    by (auto simp: example_client_env_def)
  from 1 2 show ?thesis by blast
qed


lemma clear_current_did_cleared:
  "has_window env \<Longrightarrow>
     localStorage (clear_current_did env c) ''nymeria-current-did'' = None
     \<and> RemoveItem ''nymeria-current-did'' \<in> set (effects (clear_current_did env c))"
  by (simp add: clear_current_did_def)

lemma clear_current_did_frame:
  "this_sessionId (clear_current_did env c) = this_sessionId c"
  "set (effects c) \<subseteq> set (effects (clear_current_did env c))"
  by (auto simp: clear_current_did_def)

lemma signOut_Some_cleared:
  assumes "signOut env d c = Some c'" and "has_window env"
  shows "localStorage c' ''nymeria-current-did'' = None
       \<and> RemoveItem ''nymeria-current-did'' \<in> set (effects c')"
proof (cases "oauth_revoke env d")
  case Throws
  with assms(1) have "c' = clear_current_did env (c\<lparr>effects := effects c @ [OAuthRevoke d]\<rparr>)"
    by (simp add: signOut_def Let_def)
  with assms(2) show ?thesis by (simp only: clear_current_did_cleared)
next
  case (Returns u)
  with assms(1) obtain sid where
    "c' = (clear_current_did env
             (deactivateSession env (this_sessionId c)
                (c\<lparr>effects := effects c @ [OAuthRevoke d]\<rparr>)))\<lparr>this_sessionId := JStr sid\<rparr>"
    by (auto simp: signOut_def Let_def split: option.splits)
  with clear_current_did_cleared[OF assms(2)] show ?thesis by simp
qed

lemma signOut_revoked:
  assumes "oauth_revoke env d = Returns ()"
    and "21 \<le> length (filter (\<lambda>b. unat (b AND 63) < 36) (random_bytes env))"
  shows "\<exists>c' sid. signOut env d c = Some c'
           \<and> Fetch ''/api/auth/deactivate'' (JObj [(''sessionId'', this_sessionId c)])
                \<in> set (effects c')
           \<and> generateSessionId (random_bytes env) = Some sid
           \<and> this_sessionId c' = JStr sid"
proof -
  from generateSessionId_total[OF assms(2)] obtain sid where
    sid: "generateSessionId (random_bytes env) = Some sid" by blast
  let ?c1 = "deactivateSession env (this_sessionId c) (c\<lparr>effects := effects c @ [OAuthRevoke d]\<rparr>)"
  have f: "Fetch ''/api/auth/deactivate'' (JObj [(''sessionId'', this_sessionId c)])
             \<in> set (effects ?c1)"
    by (simp add: deactivateSession_def post_def split: outcome.splits)
  with clear_current_did_frame(2)[of ?c1 env]
  have "Fetch ''/api/auth/deactivate'' (JObj [(''sessionId'', this_sessionId c)])
             \<in> set (effects (clear_current_did env ?c1))" by blast
  with assms(1) sid show ?thesis by (simp add: signOut_def Let_def)
qed

text \<open>
  Claim C5, as amended. In a browser, every execution of \<open>signOut\<close> that returns has
  removed the remembered identity from \<^verbatim>\<open>localStorage\<close>, and an execution in which
  \<^verbatim>\<open>revoke\<close> throws does return. Whether the deactivation request throws, fails or
  succeeds changes nothing in the run. When \<^verbatim>\<open>revoke\<close> succeeds (and the random bytes
  suffice for one identifier), the deactivation request for the current session is
  sent, and the client ends with a freshly generated \<open>sessionId\<close>.
\<close>

theorem signOut_always_forgets:
  "(signOut env d c = Some c' \<and> has_window env
      \<longrightarrow> localStorage c' ''nymeria-current-did'' = None
          \<and> RemoveItem ''nymeria-current-did'' \<in> set (effects c'))
   \<and> (oauth_revoke env d = Throws \<longrightarrow> signOut env d c \<noteq> None)
   \<and> signOut (env\<lparr>fetch := f\<rparr>) d c = signOut env d c
   \<and> (oauth_revoke env d = Returns ()
       \<and> 21 \<le> length (filter (\<lambda>b. unat (b AND 63) < 36) (random_bytes env))
      \<longrightarrow> (\<exists>c2 sid. signOut env d c = Some c2
             \<and> Fetch ''/api/auth/deactivate'' (JObj [(''sessionId'', this_sessionId c)])
                  \<in> set (effects c2)
             \<and> generateSessionId (random_bytes env) = Some sid
             \<and> this_sessionId c2 = JStr sid))"
proof -
  have a: "signOut env d c = Some c' \<and> has_window env
      \<Longrightarrow> localStorage c' ''nymeria-current-did'' = None
          \<and> RemoveItem ''nymeria-current-did'' \<in> set (effects c')"
    using signOut_Some_cleared by blast
  have b: "oauth_revoke env d = Throws \<Longrightarrow> signOut env d c \<noteq> None"
    by (simp add: signOut_def Let_def)
  have e: "oauth_revoke env d = Returns ()
       \<and> 21 \<le> length (filter (\<lambda>b. unat (b AND 63) < 36) (random_bytes env))
      \<Longrightarrow> (\<exists>c2 sid. signOut env d c = Some c2
             \<and> Fetch ''/api/auth/deactivate'' (JObj [(''sessionId'', this_sessionId c)])
                  \<in> set (effects c2)
             \<and> generateSessionId (random_bytes env) = Some sid
             \<and> this_sessionId c2 = JStr sid)"
    using signOut_revoked by blast
  from a b e signOut_fetch_irrelevant[where env = env and f = f and d = d and c = c]
  show ?thesis by blast
qed

text \<open>The statement in the example browser, with a working and with a failing
  \<^verbatim>\<open>revoke\<close>.\<close>

theorem signOut_always_forgets_witness:
  "(\<exists>c2. signOut example_client_env ''did:plc:abc123'' example_client = Some c2
       \<and> localStorage c2 ''nymeria-current-did'' = None
       \<and> Fetch ''/api/auth/deactivate'' (JObj [(''sessionId'', JStr ''sess_zzzzzzzzzzzzzzzzzzzzz'')])
            \<in> set (effects c2)
       \<and> this_sessionId c2 = JStr ''sess_1234567890abcdefghijk'')
   \<and> (\<exists>c3. signOut revoke_failing_env ''did:plc:abc123'' example_client = Some c3
       \<and> localStorage c3 ''nymeria-current-did'' = None)"
proof -
  have w: "has_window example_client_env" "has_window revoke_failing_env"
    by (simp_all add: example_client_env_def revoke_failing_env_def)
  have r: "oauth_revoke example_client_env ''did:plc:abc123'' = Returns ()"
    by (simp add: example_client_env_def)
  have t: "oauth_revoke revoke_failing_env ''did:plc:abc123'' = Throws"
    by (simp add: revoke_failing_env_def)
  have g: "generateSessionId (random_bytes example_client_env) = Some ''sess_1234567890abcdefghijk''"
    unfolding example_client_env_def by code_simp
  have n: "21 \<le> length (filter (\<lambda>b. unat (b AND 63) < 36) (random_bytes example_client_env))"
    unfolding example_client_env_def by code_simp
  have s: "this_sessionId example_client = JStr ''sess_zzzzzzzzzzzzzzzzzzzzz''"
    by (simp add: example_client_def)
  from signOut_always_forgets[where env = example_client_env and d = "''did:plc:abc123''"
      and c = example_client] r n g s
  obtain c2 where c2: "signOut example_client_env ''did:plc:abc123'' example_client = Some c2"
    "Fetch ''/api/auth/deactivate'' (JObj [(''sessionId'', JStr ''sess_zzzzzzzzzzzzzzzzzzzzz'')])
            \<in> set (effects c2)"
    "this_sessionId c2 = JStr ''sess_1234567890abcdefghijk''"
    by auto
  from signOut_always_forgets[where env = example_client_env and d = "''did:plc:abc123''"
      and c = example_client and c' = c2] c2(1) w(1)
  have c2l: "localStorage c2 ''nymeria-current-did'' = None" by blast
  from signOut_always_forgets[where env = revoke_failing_env and d = "''did:plc:abc123''"
      and c = example_client] t
  obtain c3 where c3: "signOut revoke_failing_env ''did:plc:abc123'' example_client = Some c3"
    by auto
  from signOut_always_forgets[where env = revoke_failing_env and d = "''did:plc:abc123''"
      and c = example_client and c' = c3] c3 w(2)
  have c3l: "localStorage c3 ''nymeria-current-did'' = None" by blast
  from c2 c2l c3 c3l show ?thesis by blast
qed

text \<open>
  Claim C5 as first stated says the three actions are attempted independently and a
  replacement \<open>sessionId\<close> is minted in every execution. When \<^verbatim>\<open>revoke\<close> throws, the
  client only removes the remembered identity: no deactivation request is sent and
  \<open>sessionId\<close> keeps its value.
\<close>

theorem signOut_revoke_failure_counterexample:
  "map_option effects (signOut revoke_failing_env ''did:plc:abc123'' example_client)
     = Some [OAuthRevoke ''did:plc:abc123'', RemoveItem ''nymeria-current-did'']
   \<and> map_option this_sessionId (signOut revoke_failing_env ''did:plc:abc123'' example_client)
     = Some (this_sessionId example_client)"
  by (simp add: signOut_def revoke_failing_env_def example_client_env_def example_client_def
      clear_current_did_def Let_def)

lemma enhance_handle:
  "es_handle (enhance session c (fetchUserProfile env session) p)
     = Some (case getProfile env (sub session) of
               Throws \<Rightarrow> sub session
             | Returns pr \<Rightarrow>
                 (case profile_displayName pr of None \<Rightarrow> sub session | Some dn \<Rightarrow> dn))"
  by (simp add: enhance_def fetchUserProfile_def split: outcome.splits option.splits)

lemma enhance_sub: "es_sub (enhance session c m p) = sub session"
  by (simp add: enhance_def)

lemma fetchUserProfile_handle_irrelevant:
  "fetchUserProfile (env\<lparr>getProfile := (\<lambda>actor. with_profile_handle h (getProfile env actor))\<rparr>) s
     = fetchUserProfile env s"
  by (simp add: fetchUserProfile_def with_profile_handle_def split: outcome.splits)

lemma helpers_getProfile_irrelevant:
  "syncSessionToDatabase (env\<lparr>getProfile := g\<rparr>) es c = syncSessionToDatabase env es c"
  "updateSessionActivity (env\<lparr>getProfile := g\<rparr>) es c = updateSessionActivity env es c"
  "state_sessionId (env\<lparr>getProfile := g\<rparr>) r = state_sessionId env r"
  by (simp_all add: syncSessionToDatabase_def updateSessionActivity_def post_def
      state_sessionId_def split: option.splits outcome.splits)

text \<open>
  Claim C10. In every enhanced session that \<open>handleCallback\<close> or \<open>restoreSession\<close>
  returns, \<open>handle\<close> is the \<open>displayName\<close> of the fetched profile when the fetch returned
  a profile that has one, and the session's \<open>sub\<close> otherwise. The account handle in the
  profile answer is never read: replacing it changes nothing in what either method
  returns.
\<close>

theorem enhanced_session_handle:
  "(handleCallback env c = Some (Some es, c')
      \<longrightarrow> es_handle es =
            Some (case getProfile env (es_sub es) of
                    Throws \<Rightarrow> es_sub es
                  | Returns pr \<Rightarrow>
                      (case profile_displayName pr of None \<Rightarrow> es_sub es | Some dn \<Rightarrow> dn)))
   \<and> (restoreSession env d c = Some (Some es, c')
      \<longrightarrow> es_handle es =
            Some (case getProfile env (es_sub es) of
                    Throws \<Rightarrow> es_sub es
                  | Returns pr \<Rightarrow>
                      (case profile_displayName pr of None \<Rightarrow> es_sub es | Some dn \<Rightarrow> dn)))
   \<and> handleCallback
        (env\<lparr>getProfile := (\<lambda>actor. with_profile_handle h (getProfile env actor))\<rparr>) c
       = handleCallback env c
   \<and> restoreSession
        (env\<lparr>getProfile := (\<lambda>actor. with_profile_handle h (getProfile env actor))\<rparr>) d c
       = restoreSession env d c"
proof -
  have a: "handleCallback env c = Some (Some es, c')
      \<Longrightarrow> es_handle es =
            Some (case getProfile env (es_sub es) of
                    Throws \<Rightarrow> es_sub es
                  | Returns pr \<Rightarrow>
                      (case profile_displayName pr of None \<Rightarrow> es_sub es | Some dn \<Rightarrow> dn))"
    by (auto simp: handleCallback_def Let_def enhance_handle enhance_sub
        split: outcome.splits option.splits)
  have b: "restoreSession env d c = Some (Some es, c')
      \<Longrightarrow> es_handle es =
            Some (case getProfile env (es_sub es) of
                    Throws \<Rightarrow> es_sub es
                  | Returns pr \<Rightarrow>
                      (case profile_displayName pr of None \<Rightarrow> es_sub es | Some dn \<Rightarrow> dn))"
    by (auto simp: restoreSession_def Let_def enhance_handle enhance_sub
        split: outcome.splits option.splits if_splits)
  have e: "handleCallback
        (env\<lparr>getProfile := (\<lambda>actor. with_profile_handle h (getProfile env actor))\<rparr>) c
       = handleCallback env c"
    by (simp add: handleCallback_def Let_def fetchUserProfile_handle_irrelevant
        helpers_getProfile_irrelevant split: outcome.splits option.splits)
  have g: "restoreSession
        (env\<lparr>getProfile := (\<lambda>actor. with_profile_handle h (getProfile env actor))\<rparr>) d c
       = restoreSession env d c"
    by (simp add: restoreSession_def Let_def fetchUserProfile_handle_irrelevant
        helpers_getProfile_irrelevant split: outcome.splits option.splits)
  from a b e g show ?thesis by blast
qed

text \<open>The statement in the example browser: the display name when the profile is
  fetched, the \<open>sub\<close> when the profile service is down.\<close>

theorem enhanced_session_handle_witness:
  "(\<exists>es c'. handleCallback example_client_env example_client = Some (Some es, c')
       \<and> es_handle es = Some ''Alice'')
   \<and> (\<exists>es c'. restoreSession profile_failing_env ''did:plc:abc123'' example_client
                 = Some (Some es, c')
       \<and> es_handle es = Some ''did:plc:abc123'')"
proof -
  have g: "generateSessionId (random_bytes example_client_env) = Some ''sess_1234567890abcdefghijk''"
    unfolding example_client_env_def by code_simp
  have "\<exists>es c'. handleCallback example_client_env example_client = Some (Some es, c')
      \<and> es_sub es = ''did:plc:abc123''"
    using g
    by (simp add: handleCallback_def state_sessionId_def example_client_env_def Let_def
        enhance_def)
  then obtain es1 c1 where
    1: "handleCallback example_client_env example_client = Some (Some es1, c1)"
    and s1: "es_sub es1 = ''did:plc:abc123''" by blast
  have p1: "getProfile example_client_env ''did:plc:abc123''
      = Returns \<lparr>profile_handle = ''alice.example'', profile_displayName = Some ''Alice'',
                 profile_avatar = None, profile_description = None\<rparr>"
    by (simp add: example_client_env_def)
  from enhanced_session_handle[where env = example_client_env and c = example_client
      and es = es1 and c' = c1] 1 s1 p1
  have h1: "es_handle es1 = Some ''Alice''" by simp
  have "\<exists>es c'. restoreSession profile_failing_env ''did:plc:abc123'' example_client
                 = Some (Some es, c') \<and> es_sub es = ''did:plc:abc123''"
    by (simp add: restoreSession_def profile_failing_env_def example_client_env_def
        example_client_def Let_def enhance_def)
  then obtain es2 c2 where 2:
    "restoreSession profile_failing_env ''did:plc:abc123'' example_client = Some (Some es2, c2)"
    and s2: "es_sub es2 = ''did:plc:abc123''" by blast
  have p2: "getProfile profile_failing_env ''did:plc:abc123'' = Throws"
    by (simp add: profile_failing_env_def)
  from enhanced_session_handle[where env = profile_failing_env and c = example_client
      and es = es2 and c' = c2 and d = "''did:plc:abc123''"] 2 s2 p2
  have h2: "es_handle es2 = Some ''did:plc:abc123''" by simp
  from 1 h1 2 h2 show ?thesis by blast
qed

end
